theory Spec2Isabelle
  imports Main "HOL-Library.Sublist"
begin

section \<open>JavaScript strings\<close>

text \<open>
  A JavaScript string is a sequence of UTF-16 code units; \<open>.length\<close> counts them and
  regular expressions without the \<open>u\<close> flag work on them one by one. A string is
  modelled as the list of its code units (integers from 0 to 65535). Literals of the source are
  written \<open>js ''...''\<close>; a code unit outside ASCII is written as its number (the em
  dash is 8212).
\<close>

type_synonym js_string = "int list"

definition js :: "string \<Rightarrow> js_string" where
  "js s = map of_char s"

text \<open>\<open>WhiteSpace\<close> and \<open>LineTerminator\<close> of ECMAScript: what \<open>trim()\<close> strips and
  what \<open>\s\<close> matches.\<close>

definition isWhiteSpace :: "int \<Rightarrow> bool" where
  "isWhiteSpace c = ((9 \<le> c \<and> c \<le> 13) \<or> c = 32 \<or> c = 160 \<or> c = 5760
     \<or> (8192 \<le> c \<and> c \<le> 8202) \<or> c = 8232 \<or> c = 8233 \<or> c = 8239 \<or> c = 8287
     \<or> c = 12288 \<or> c = 65279)"

definition js_trim :: "js_string \<Rightarrow> js_string" where
  "js_trim s = rev (dropWhile isWhiteSpace (rev (dropWhile isWhiteSpace s)))"

text \<open>\<open>Array.prototype.join\<close> on strings.\<close>

fun js_join :: "js_string \<Rightarrow> js_string list \<Rightarrow> js_string" where
  "js_join sep [] = []"
| "js_join sep [x] = x"
| "js_join sep (x # y # ys) = x @ sep @ js_join sep (y # ys)"

section \<open>Context pack: the conversation window (projectManager.ts)\<close>

datatype role = User | Assistant

fun role_str :: "role \<Rightarrow> js_string" where
  "role_str User = js ''user''"
| "role_str Assistant = js ''assistant''"

record ConversationTurn =
  role :: role
  content :: js_string

definition CONVERSATION_RECENT_MAX_CHARS :: nat where
  "CONVERSATION_RECENT_MAX_CHARS = 12000"

text \<open>\<open>lineLen\<close> of the loop body: \<open>role.length + content.length + 12\<close>.\<close>

definition lineLen :: "ConversationTurn \<Rightarrow> nat" where
  "lineLen t = length (role_str (role t)) + length (content t) + 12"

text \<open>
  The \<open>for\<close> loop of \<open>recentTurnsWithinCharBudget\<close>, \<open>i\<close> running from the last turn
  down to the first: the first argument holds the turns not yet visited, most recent
  first. \<open>break\<close> returns the turns collected so far; \<open>unshift\<close> is consing.
\<close>

fun budget_loop :: "nat \<Rightarrow> ConversationTurn list \<Rightarrow> nat \<Rightarrow> ConversationTurn list
    \<Rightarrow> ConversationTurn list" where
  "budget_loop maxChars [] len recent = recent"
| "budget_loop maxChars (t # older) len recent =
     (if len + lineLen t > maxChars \<and> length recent > 0 then recent
      else budget_loop maxChars older (len + lineLen t) (t # recent))"

definition recentTurnsWithinCharBudget ::
    "ConversationTurn list \<Rightarrow> nat \<Rightarrow> ConversationTurn list \<times> nat" where
  "recentTurnsWithinCharBudget turns maxChars =
     (if length turns = 0 then ([], 0)
      else let recent = budget_loop maxChars (rev turns) 0 []
           in (recent, length turns - length recent))"

record PmAgentConfig =
  conversationHistory :: "ConversationTurn list option"
  conversationContextPack :: "js_string option"
  projectId :: "js_string option"

text \<open>The note of \<open>buildContextPack\<close>; \<open>budgetText\<close> is what
  \<open>CONVERSATION_RECENT_MAX_CHARS.toLocaleString()\<close> gives in the host's locale
  (\<open>12,000\<close> in en-US).\<close>

definition truncNote :: "js_string \<Rightarrow> nat \<Rightarrow> js_string" where
  "truncNote budgetText omitted =
     (if omitted > 0
      then js [CHR 0x0A] @ js ''(older messages omitted; showing recent conversation within ''
           @ budgetText @ js '' characters)'' @ js [CHR 0x0A, CHR 0x0A]
      else js [CHR 0x0A, CHR 0x0A])"

definition render_turn :: "ConversationTurn \<Rightarrow> js_string" where
  "render_turn t = js ''**'' @ role_str (role t) @ js ''**: '' @ content t"

text \<open>The first sections of \<open>buildContextPack\<close>: the conversation so far (when there
  is one) and the user message.\<close>

definition buildContextPack_conversation ::
    "js_string \<Rightarrow> PmAgentConfig \<Rightarrow> js_string \<Rightarrow> js_string list" where
  "buildContextPack_conversation budgetText config userMessage =
     (let fromHistory =
            (case conversationHistory config of
               None \<Rightarrow> []
             | Some history \<Rightarrow>
                 if length history > 0
                 then (let (recent, omitted) =
                             recentTurnsWithinCharBudget history CONVERSATION_RECENT_MAX_CHARS;
                           lines = map render_turn recent
                       in [js ''## Conversation so far'' @ truncNote budgetText omitted
                           @ js_join (js [CHR 0x0A, CHR 0x0A]) lines])
                 else []);
          sections =
            (case conversationContextPack config of
               None \<Rightarrow> fromHistory
             | Some pack \<Rightarrow>
                 if pack \<noteq> [] \<and> js_trim pack \<noteq> []
                 then [js ''## Conversation so far'' @ js [CHR 0x0A, CHR 0x0A] @ js_trim pack]
                 else fromHistory)
      in if sections \<noteq> []
         then sections @ [js ''## User message (latest reply in the conversation above)''
                          @ js [CHR 0x0A, CHR 0x0A] @ userMessage]
         else [js ''## User message'' @ js [CHR 0x0A, CHR 0x0A] @ userMessage])"

definition sumLen :: "ConversationTurn list \<Rightarrow> nat" where
  "sumLen ts = sum_list (map lineLen ts)"

section \<open>Tool Call Record and the fallback reply of \<open>runPmAgent\<close>\<close>

text \<open>\<open>String(n)\<close> for a non-negative integer: its decimal digits.\<close>

function decimal :: "nat \<Rightarrow> js_string" where
  "decimal n = (if n < 10 then [48 + int n] else decimal (n div 10) @ [48 + int (n mod 10)])"
  by pat_completeness auto
termination
  by (relation "measure (\<lambda>n. n)") auto

record ChecklistResults =
  goal :: bool
  deliverable :: bool
  acceptanceCriteria :: bool
  constraintsNonGoals :: bool
  noPlaceholders :: bool

record ReadyCheckResult =
  ready :: bool
  missingItems :: "js_string list"
  checklistResults :: ChecklistResults

text \<open>
  The result types of the tools, as the \<open>type ...Result\<close> unions of the source declare
  them. An optional property (\<open>x?: T\<close>) is an \<open>option\<close>; the flags that the source
  spreads in only when true (\<open>autoFixed\<close>, \<open>movedToTodo\<close>) are booleans, and
  \<open>retried\<close>/\<open>attempts\<close>, present together when \<open>attempt > 1\<close>, are one optional number.
\<close>

datatype CreateResult =
    CreateOk (c_id: js_string) (c_display_id: js_string) (c_ticket_number: int)
      (c_repo_full_name: js_string) (c_filename: js_string) (c_filePath: js_string)
      (c_attempts: "nat option") (c_ready: bool) (c_missingItems: "js_string list option")
      (c_autoFixed: bool) (c_movedToTodo: bool) (c_moveError: "js_string option")
  | CreateErr (c_error: js_string) (c_detectedPlaceholders: "js_string list option")

datatype FetchResult =
    FetchOk (f_id: js_string) (f_display_id: "js_string option") (f_ticket_number: "int option")
      (f_repo_full_name: "js_string option") (f_title: js_string) (f_body_md: js_string)
      (f_kanban_column_id: "js_string option")
  | FetchErr (f_error: js_string)

datatype UpdateResult =
    UpdateOk (u_ticketId: js_string) (u_ready: bool) (u_missingItems: "js_string list option")
  | UpdateErr (u_error: js_string) (u_detectedPlaceholders: "js_string list option")

datatype SyncResult = SyncOk (s_message: "js_string option") | SyncErr (s_error: js_string)

datatype MoveResult =
    MoveOk (m_ticketId: js_string) (m_fromColumn: js_string) (m_toColumn: js_string)
  | MoveErr (m_error: js_string)

record TicketSummary =
  t_id :: js_string
  t_title :: js_string
  t_column :: js_string

datatype ListResult =
    ListOk (l_column_id: js_string) (l_tickets: "TicketSummary list") (l_count: nat)
  | ListErr (l_error: js_string)

datatype ListReposResult =
    ListReposOk (r_repos: "js_string list") (r_count: nat)
  | ListReposErr (r_error: js_string)

datatype MoveOtherResult =
    MoveOtherOk (o_ticketId: js_string) (o_display_id: "js_string option") (o_fromRepo: js_string)
      (o_toRepo: js_string) (o_fromColumn: js_string) (o_toColumn: js_string)
  | MoveOtherErr (o_error: js_string)

text \<open>
  One entry of \<open>toolCalls\<close>: \<open>{name, input, output}\<close>. Every entry is pushed by one of
  the tools of \<open>runPmAgent\<close>, so the name fixes the type of the input and the output; the
  entries of the three repository inspection tools carry outputs without a \<open>success\<close>
  property, which nothing below reads.
\<close>

datatype ToolCallRecord =
    Call_list_directory
  | Call_read_file
  | Call_search_files
  | Call_create_ticket js_string js_string CreateResult
  | Call_fetch_ticket_content js_string FetchResult
  | Call_evaluate_ticket_ready js_string ReadyCheckResult
  | Call_update_ticket_body js_string js_string UpdateResult
  | Call_sync_tickets SyncResult
  | Call_kanban_move_ticket_to_todo js_string MoveResult
  | Call_list_tickets_by_column js_string ListResult
  | Call_list_available_repos ListReposResult
  | Call_kanban_move_ticket_to_other_repo_todo js_string js_string MoveOtherResult

fun tool_name :: "ToolCallRecord \<Rightarrow> js_string" where
  "tool_name Call_list_directory = js ''list_directory''"
| "tool_name Call_read_file = js ''read_file''"
| "tool_name Call_search_files = js ''search_files''"
| "tool_name (Call_create_ticket _ _ _) = js ''create_ticket''"
| "tool_name (Call_fetch_ticket_content _ _) = js ''fetch_ticket_content''"
| "tool_name (Call_evaluate_ticket_ready _ _) = js ''evaluate_ticket_ready''"
| "tool_name (Call_update_ticket_body _ _ _) = js ''update_ticket_body''"
| "tool_name (Call_sync_tickets _) = js ''sync_tickets''"
| "tool_name (Call_kanban_move_ticket_to_todo _ _) = js ''kanban_move_ticket_to_todo''"
| "tool_name (Call_list_tickets_by_column _ _) = js ''list_tickets_by_column''"
| "tool_name (Call_list_available_repos _) = js ''list_available_repos''"
| "tool_name (Call_kanban_move_ticket_to_other_repo_todo _ _ _) =
     js ''kanban_move_ticket_to_other_repo_todo''"

text \<open>The predicates of the \<open>toolCalls.find(...)\<close> calls, in the order of the chain. An
  array is truthy even when empty, so \<open>detectedPlaceholders\<close> counts when present.\<close>

fun is_createTicketRejected :: "ToolCallRecord \<Rightarrow> bool" where
  "is_createTicketRejected (Call_create_ticket _ _ (CreateErr _ (Some _))) = True"
| "is_createTicketRejected _ = False"

fun is_updateTicketRejected :: "ToolCallRecord \<Rightarrow> bool" where
  "is_updateTicketRejected (Call_update_ticket_body _ _ (UpdateErr _ (Some _))) = True"
| "is_updateTicketRejected _ = False"

fun is_createTicketCall :: "ToolCallRecord \<Rightarrow> bool" where
  "is_createTicketCall (Call_create_ticket _ _ (CreateOk _ _ _ _ _ _ _ _ _ _ _ _)) = True"
| "is_createTicketCall _ = False"

fun is_moveCall :: "ToolCallRecord \<Rightarrow> bool" where
  "is_moveCall (Call_kanban_move_ticket_to_todo _ (MoveOk _ _ _)) = True"
| "is_moveCall _ = False"

fun is_updateBodyCall :: "ToolCallRecord \<Rightarrow> bool" where
  "is_updateBodyCall (Call_update_ticket_body _ _ (UpdateOk _ _ _)) = True"
| "is_updateBodyCall _ = False"

fun is_syncTicketsCall :: "ToolCallRecord \<Rightarrow> bool" where
  "is_syncTicketsCall (Call_sync_tickets (SyncOk _)) = True"
| "is_syncTicketsCall _ = False"

fun is_listTicketsCall :: "ToolCallRecord \<Rightarrow> bool" where
  "is_listTicketsCall (Call_list_tickets_by_column _ (ListOk _ _ _)) = True"
| "is_listTicketsCall _ = False"

fun is_listReposCall :: "ToolCallRecord \<Rightarrow> bool" where
  "is_listReposCall (Call_list_available_repos (ListReposOk _ _)) = True"
| "is_listReposCall _ = False"

fun is_moveToOtherRepoCall :: "ToolCallRecord \<Rightarrow> bool" where
  "is_moveToOtherRepoCall (Call_kanban_move_ticket_to_other_repo_todo _ _ (MoveOtherOk _ _ _ _ _ _)) = True"
| "is_moveToOtherRepoCall _ = False"

definition rejected_reply :: "js_string \<Rightarrow> js_string \<Rightarrow> js_string list option \<Rightarrow> js_string" where
  "rejected_reply heading err detected =
     heading @ err
     @ (case detected of
          Some ps \<Rightarrow> if length ps > 0
                     then js [CHR 0x0A, CHR 0x0A] @ js ''**Detected placeholders:** ''
                          @ js_join (js '', '') ps
                     else []
        | None \<Rightarrow> [])
     @ js [CHR 0x0A, CHR 0x0A]
     @ js ''Please replace all angle-bracket placeholders with concrete content and try again. Check Diagnostics for details.''"

text \<open>The sentence each branch of the chain writes for the record it found.\<close>

fun reply_createTicketRejected :: "ToolCallRecord \<Rightarrow> js_string" where
  "reply_createTicketRejected (Call_create_ticket _ _ (CreateErr err detected)) =
     rejected_reply (js ''**Ticket creation rejected:** '') err detected"
| "reply_createTicketRejected _ = []"

fun reply_updateTicketRejected :: "ToolCallRecord \<Rightarrow> js_string" where
  "reply_updateTicketRejected (Call_update_ticket_body _ _ (UpdateErr err detected)) =
     rejected_reply (js ''**Ticket update rejected:** '') err detected"
| "reply_updateTicketRejected _ = []"

fun reply_createTicketCall :: "ToolCallRecord \<Rightarrow> js_string" where
  "reply_createTicketCall (Call_create_ticket _ _ (CreateOk i _ _ _ _ filePath _ rdy missing _ _ _)) =
     js ''I created ticket **'' @ i @ js ''** at `'' @ filePath
     @ js ''`. It should appear in the Kanban board under Unassigned (sync may run automatically).''
     @ (case missing of
          Some items \<Rightarrow>
            if rdy = False \<and> length items > 0
            then js '' The ticket is not yet ready for To Do: '' @ js_join (js ''; '') items
                 @ js ''. Update the ticket or ask me to move it once it passes the Ready-to-start checklist.''
            else []
        | None \<Rightarrow> [])"
| "reply_createTicketCall _ = []"

fun reply_moveCall :: "ToolCallRecord \<Rightarrow> js_string" where
  "reply_moveCall (Call_kanban_move_ticket_to_todo _ (MoveOk ticketId fromColumn toColumn)) =
     js ''I moved ticket **'' @ ticketId @ js ''** from '' @ fromColumn @ js '' to **'' @ toColumn
     @ js ''**. It should now appear under To Do on the Kanban board.''"
| "reply_moveCall _ = []"

fun reply_updateBodyCall :: "ToolCallRecord \<Rightarrow> js_string" where
  "reply_updateBodyCall (Call_update_ticket_body _ _ (UpdateOk ticketId rdy missing)) =
     js ''I updated the body of ticket **'' @ ticketId
     @ js ''** in Supabase. The Kanban UI will reflect the change within ~10 seconds.''
     @ (case missing of
          Some items \<Rightarrow>
            if rdy = False \<and> length items > 0
            then js '' Note: the ticket may still not pass readiness: '' @ js_join (js ''; '') items
                 @ js ''.''
            else []
        | None \<Rightarrow> [])"
| "reply_updateBodyCall _ = []"

fun reply_syncTicketsCall :: "ToolCallRecord \<Rightarrow> js_string" where
  "reply_syncTicketsCall _ =
     js ''I ran sync-tickets. docs/tickets/*.md now match Supabase (Supabase is the source of truth).''"

definition ticket_line :: "TicketSummary \<Rightarrow> js_string" where
  "ticket_line t = js ''- **'' @ t_id t @ js ''** '' @ [8212] @ js '' '' @ t_title t"

fun reply_listTicketsCall :: "ToolCallRecord \<Rightarrow> js_string" where
  "reply_listTicketsCall (Call_list_tickets_by_column _ (ListOk column_id tickets n)) =
     (if n = 0 then js ''No tickets found in column **'' @ column_id @ js ''**.''
      else js ''Tickets in **'' @ column_id @ js ''** ('' @ decimal n @ js ''):''
           @ js [CHR 0x0A, CHR 0x0A] @ js_join (js [CHR 0x0A]) (map ticket_line tickets))"
| "reply_listTicketsCall _ = []"

fun reply_listReposCall :: "ToolCallRecord \<Rightarrow> js_string" where
  "reply_listReposCall (Call_list_available_repos (ListReposOk repos n)) =
     (if n = 0 then js ''No repositories found in the database.''
      else js ''Available repositories ('' @ decimal n @ js ''):'' @ js [CHR 0x0A, CHR 0x0A]
           @ js_join (js [CHR 0x0A]) (map (\<lambda>r. js ''- **'' @ r @ js ''**'') repos))"
| "reply_listReposCall _ = []"

fun reply_moveToOtherRepoCall :: "ToolCallRecord \<Rightarrow> js_string" where
  "reply_moveToOtherRepoCall
     (Call_kanban_move_ticket_to_other_repo_todo _ _
        (MoveOtherOk ticketId display_id fromRepo toRepo fromColumn toColumn)) =
     js ''I moved ticket **'' @ (case display_id of Some d \<Rightarrow> d | None \<Rightarrow> ticketId)
     @ js ''** from **'' @ fromRepo @ js ''** ('' @ fromColumn @ js '') to **'' @ toRepo
     @ js ''** ('' @ toColumn
     @ js ''). The ticket is now in the To Do column of the target repository.''"
| "reply_moveToOtherRepoCall _ = []"

text \<open>
  The chain of \<open>runPmAgent\<close> after \<open>generateText\<close> returned: nested \<open>if/else\<close>, each
  level searching \<open>toolCalls\<close> with \<open>find\<close> (the first entry that satisfies the predicate).
  \<open>None\<close> when no level finds an entry: \<open>reply\<close> is then left as it was.
\<close>

definition fallback_reply :: "ToolCallRecord list \<Rightarrow> js_string option" where
  "fallback_reply toolCalls =
     (case find is_createTicketRejected toolCalls of
        Some c \<Rightarrow> Some (reply_createTicketRejected c)
      | None \<Rightarrow>
     (case find is_updateTicketRejected toolCalls of
        Some c \<Rightarrow> Some (reply_updateTicketRejected c)
      | None \<Rightarrow>
     (case find is_createTicketCall toolCalls of
        Some c \<Rightarrow> Some (reply_createTicketCall c)
      | None \<Rightarrow>
     (case find is_moveCall toolCalls of
        Some c \<Rightarrow> Some (reply_moveCall c)
      | None \<Rightarrow>
     (case find is_updateBodyCall toolCalls of
        Some c \<Rightarrow> Some (reply_updateBodyCall c)
      | None \<Rightarrow>
     (case find is_syncTicketsCall toolCalls of
        Some c \<Rightarrow> Some (reply_syncTicketsCall c)
      | None \<Rightarrow>
     (case find is_listTicketsCall toolCalls of
        Some c \<Rightarrow> Some (reply_listTicketsCall c)
      | None \<Rightarrow>
     (case find is_listReposCall toolCalls of
        Some c \<Rightarrow> Some (reply_listReposCall c)
      | None \<Rightarrow>
     (case find is_moveToOtherRepoCall toolCalls of
        Some c \<Rightarrow> Some (reply_moveToOtherRepoCall c)
      | None \<Rightarrow> None)))))))))"

text \<open>\<open>reply\<close> of a turn whose \<open>generateText\<close> call returned \<open>text\<close> (\<open>result.text ?? ''\<close>).\<close>

definition runPmAgent_reply :: "js_string \<Rightarrow> ToolCallRecord list \<Rightarrow> js_string" where
  "runPmAgent_reply text toolCalls =
     (if js_trim text = []
      then (case fallback_reply toolCalls of Some r \<Rightarrow> r | None \<Rightarrow> text)
      else text)"

text \<open>The chain as an ordered list of (predicate, formatter) pairs, evaluated once: the
  first pair whose predicate some entry satisfies answers with the first such entry.\<close>

definition fallback_rules ::
    "((ToolCallRecord \<Rightarrow> bool) \<times> (ToolCallRecord \<Rightarrow> js_string)) list" where
  "fallback_rules =
     [(is_createTicketRejected, reply_createTicketRejected),
      (is_updateTicketRejected, reply_updateTicketRejected),
      (is_createTicketCall, reply_createTicketCall),
      (is_moveCall, reply_moveCall),
      (is_updateBodyCall, reply_updateBodyCall),
      (is_syncTicketsCall, reply_syncTicketsCall),
      (is_listTicketsCall, reply_listTicketsCall),
      (is_listReposCall, reply_listReposCall),
      (is_moveToOtherRepoCall, reply_moveToOtherRepoCall)]"

fun first_rule ::
    "((ToolCallRecord \<Rightarrow> bool) \<times> (ToolCallRecord \<Rightarrow> js_string)) list \<Rightarrow> ToolCallRecord list
       \<Rightarrow> js_string option" where
  "first_rule [] toolCalls = None"
| "first_rule ((p, f) # rules) toolCalls =
     (case find p toolCalls of Some c \<Rightarrow> Some (f c) | None \<Rightarrow> first_rule rules toolCalls)"

section \<open>Path sandbox (utils/sandbox.ts)\<close>

text \<open>
  \<open>sandboxPath\<close> is built from Node's \<open>path\<close> module, which is not part of the
  repository. The three functions it calls are modelled here after Node's POSIX
  implementation (\<open>path.posix\<close>): paths are strings, the separator is \<open>/\<close> (code unit
  47), and \<open>process.cwd()\<close> is the parameter \<open>cwd\<close>.
\<close>

fun split_on :: "int \<Rightarrow> js_string \<Rightarrow> js_string list" where
  "split_on sep [] = [[]]"
| "split_on sep (c # cs) =
     (if c = sep then [] # split_on sep cs
      else (case split_on sep cs of w # ws \<Rightarrow> (c # w) # ws | [] \<Rightarrow> [[c]]))"

text \<open>One segment of \<open>normalizeString\<close>: empty segments and \<open>.\<close> are dropped, \<open>..\<close>
  removes the segment before it (or is kept, above the start of a relative path).\<close>

definition norm_step :: "bool \<Rightarrow> js_string list \<Rightarrow> js_string \<Rightarrow> js_string list" where
  "norm_step allowAboveRoot res seg =
     (if seg = [] \<or> seg = js ''.'' then res
      else if seg = js ''..''
           then (if res \<noteq> [] \<and> last res \<noteq> js ''..'' then butlast res
                 else if allowAboveRoot then res @ [js ''..''] else res)
      else res @ [seg])"

definition normalizeString :: "bool \<Rightarrow> js_string \<Rightarrow> js_string" where
  "normalizeString allowAboveRoot p =
     js_join (js ''/'') (foldl (norm_step allowAboveRoot) [] (split_on 47 p))"

text \<open>The loop of \<open>path.resolve\<close>: the arguments from the last to the first, then the
  working directory, until an absolute one is met; empty arguments are skipped.\<close>

fun resolve_loop :: "js_string list \<Rightarrow> js_string \<Rightarrow> js_string \<times> bool" where
  "resolve_loop [] resolvedPath = (resolvedPath, False)"
| "resolve_loop (p # ps) resolvedPath =
     (if p = [] then resolve_loop ps resolvedPath
      else if hd p = 47 then (p @ js ''/'' @ resolvedPath, True)
      else resolve_loop ps (p @ js ''/'' @ resolvedPath))"

definition path_resolve :: "js_string \<Rightarrow> js_string list \<Rightarrow> js_string" where
  "path_resolve cwd args =
     (let (resolvedPath, resolvedAbsolute) = resolve_loop (rev args @ [cwd]) [];
          normalized = normalizeString (\<not> resolvedAbsolute) resolvedPath
      in if resolvedAbsolute then js ''/'' @ normalized
         else if normalized \<noteq> [] then normalized else js ''.'')"

definition path_isAbsolute :: "js_string \<Rightarrow> bool" where
  "path_isAbsolute p = (p \<noteq> [] \<and> hd p = 47)"

definition segments :: "js_string \<Rightarrow> js_string list" where
  "segments p = filter (\<lambda>s. s \<noteq> []) (split_on 47 p)"

fun strip_common :: "'a list \<Rightarrow> 'a list \<Rightarrow> 'a list \<times> 'a list" where
  "strip_common (x # xs) (y # ys) = (if x = y then strip_common xs ys else (x # xs, y # ys))"
| "strip_common xs ys = (xs, ys)"

text \<open>\<open>path.relative\<close>: one \<open>..\<close> for every segment of \<open>from\<close> below the common
  directory, then the segments of \<open>to\<close> below it.\<close>

definition path_relative :: "js_string \<Rightarrow> js_string \<Rightarrow> js_string \<Rightarrow> js_string" where
  "path_relative cwd from to =
     (if from = to then []
      else let from' = path_resolve cwd [from]; to' = path_resolve cwd [to]
           in if from' = to' then []
              else let (up, down) = strip_common (segments from') (segments to')
                   in js_join (js ''/'') (replicate (length up) (js ''..'') @ down))"

text \<open>\<open>String.prototype.startsWith\<close>.\<close>

definition startsWith :: "js_string \<Rightarrow> js_string \<Rightarrow> bool" where
  "startsWith s p = (take (length p) s = p)"

text \<open>\<open>sandboxPath\<close>: \<open>None\<close> is \<open>null\<close>.\<close>

definition sandboxPath :: "js_string \<Rightarrow> js_string \<Rightarrow> js_string \<Rightarrow> js_string option" where
  "sandboxPath cwd repoRoot relativeOrAbsolute =
     (let absolute = path_resolve cwd
            [repoRoot, if relativeOrAbsolute = [] then js ''.'' else relativeOrAbsolute];
          repoResolved = path_resolve cwd [repoRoot];
          relative = path_relative cwd repoResolved absolute
      in if startsWith relative (js ''..'') \<or> path_isAbsolute relative then None
         else Some absolute)"

section \<open>Redaction (utils/redact.ts)\<close>

text \<open>
  The values \<open>redact\<close> walks: strings, arrays, objects (the list of their entries, in
  the order of \<open>Object.entries\<close>) and everything else, which is returned as it is.
  Numbers are never inspected; their type is left open.
\<close>

datatype 'n js_value =
    JUndefined
  | JNull
  | JBool bool
  | JNumber 'n
  | JString js_string
  | JArray "'n js_value list"
  | JObject "(js_string \<times> 'n js_value) list"


text \<open>The class \<open>[a-zA-Z0-9_-]\<close> and its parts.\<close>

definition is_alnum :: "int \<Rightarrow> bool" where
  "is_alnum c = ((48 \<le> c \<and> c \<le> 57) \<or> (65 \<le> c \<and> c \<le> 90) \<or> (97 \<le> c \<and> c \<le> 122))"





definition ascii_lower :: "int \<Rightarrow> int" where
  "ascii_lower c = (if 65 \<le> c \<and> c \<le> 90 then c + 32 else c)"

text \<open>A literal of ASCII letters and punctuation under the \<open>i\<close> flag: a code unit outside
  ASCII never matches an ASCII one.\<close>

definition startsWith_ci :: "js_string \<Rightarrow> js_string \<Rightarrow> bool" where
  "startsWith_ci s p = (map ascii_lower (take (length p) s) = p)"












section \<open>Placeholders and the readiness evaluator (projectManager.ts)\<close>

text \<open>
  \<open>s.match(re) ?? []\<close> for a global regular expression whose matches are not empty:
  the matched substrings from left to right, the scan resuming after each match.
\<close>

function match_all :: "(js_string \<Rightarrow> nat option) \<Rightarrow> js_string \<Rightarrow> js_string list" where
  "match_all m [] = []"
| "match_all m (c # cs) =
     (case m (c # cs) of
        Some n \<Rightarrow> if 0 < n then take n (c # cs) # match_all m (drop n (c # cs))
                  else match_all m cs
      | None \<Rightarrow> match_all m cs)"
  by pat_completeness auto
termination
  by (relation "measure (\<lambda>(m, s). length s)") auto

text \<open>\<open>re.test(s)\<close> for an expression that is not anchored: some suffix of \<open>s\<close> starts
  with a match.\<close>

fun test_anywhere :: "(js_string \<Rightarrow> bool) \<Rightarrow> js_string \<Rightarrow> bool" where
  "test_anywhere p [] = p []"
| "test_anywhere p (c # cs) = (p (c # cs) \<or> test_anywhere p cs)"

text \<open>\<open>PLACEHOLDER_RE = /<[A-Za-z0-9\s\-_]+>/g\<close>: neither bracket is in the class, so
  the run between them is the maximal one.\<close>

definition is_placeholder_char :: "int \<Rightarrow> bool" where
  "is_placeholder_char c = (is_alnum c \<or> isWhiteSpace c \<or> c = 45 \<or> c = 95)"

definition placeholder_match :: "js_string \<Rightarrow> nat option" where
  "placeholder_match s =
     (if startsWith s (js ''<'')
      then (let n = length (takeWhile is_placeholder_char (drop 1 s))
            in if 0 < n \<and> startsWith (drop (1 + n) s) (js ''>'') then Some (n + 2) else None)
      else None)"

definition placeholders_in :: "js_string \<Rightarrow> js_string list" where
  "placeholders_in s = match_all placeholder_match s"

text \<open>
  The expression of \<open>sectionContent\<close>,
  \<open>##\s+TITLE\s*\n([\s\S]*?)(?=\n## |$)\<close> with the flag \<open>i\<close>, at the head of \<open>s\<close>.
  The titles start with a letter, so \<open>\s+\<close> takes the whole run of white space; \<open>\s*\n\<close>
  takes the white space after the title up to its last line feed; the lazy group then runs
  to the first \<open>\n## \<close> or to the end of the input. The result is the group.
\<close>

fun until_heading :: "js_string \<Rightarrow> js_string" where
  "until_heading [] = []"
| "until_heading (c # cs) =
     (if startsWith (c # cs) (js [CHR 0x0A] @ js ''## '') then [] else c # until_heading cs)"

definition section_at :: "js_string \<Rightarrow> js_string \<Rightarrow> (nat \<times> js_string) option" where
  "section_at sectionTitle s =
     (if startsWith s (js ''##'')
      then (let r = drop 2 s; w = takeWhile isWhiteSpace r; r2 = drop (length w) r
            in if w \<noteq> [] \<and> startsWith_ci r2 (map ascii_lower sectionTitle)
               then (let r3 = drop (length sectionTitle) r2;
                         w2 = takeWhile isWhiteSpace r3;
                         k = length w2 - length (takeWhile (\<lambda>c. c \<noteq> 10) (rev w2))
                     in if 10 \<in> set w2
                        then Some (2 + length w + length sectionTitle + k, until_heading (drop k r3))
                        else None)
               else None)
      else None)"

text \<open>\<open>body.match(re)\<close> without the flag \<open>g\<close>: the leftmost match, with the index where it
  starts. A section match is the pair of the length of its heading part (the first group
  of \<open>acRegex\<close>) and its content group.\<close>

fun first_index :: "(js_string \<Rightarrow> 'a option) \<Rightarrow> js_string \<Rightarrow> (nat \<times> 'a) option" where
  "first_index m [] = (case m [] of Some x \<Rightarrow> Some (0, x) | None \<Rightarrow> None)"
| "first_index m (c # cs) =
     (case m (c # cs) of
        Some x \<Rightarrow> Some (0, x)
      | None \<Rightarrow> (case first_index m cs of Some (i, x) \<Rightarrow> Some (Suc i, x) | None \<Rightarrow> None))"

definition first_section :: "js_string \<Rightarrow> js_string \<Rightarrow> js_string option" where
  "first_section sectionTitle body =
     (case first_index (section_at sectionTitle) body of
        Some (i, h, g) \<Rightarrow> Some g
      | None \<Rightarrow> None)"

definition sectionContent :: "js_string \<Rightarrow> js_string \<Rightarrow> js_string" where
  "sectionContent body sectionTitle =
     js_trim (case first_section sectionTitle body of Some g \<Rightarrow> g | None \<Rightarrow> [])"

text \<open>\<open>/^<[^>]*>$/.test(s)\<close>: the whole of \<open>s\<close> is one pair of angle brackets.\<close>

definition whole_angle :: "js_string \<Rightarrow> bool" where
  "whole_angle s =
     (case s of [] \<Rightarrow> False
      | c # r \<Rightarrow> c = 60 \<and> r \<noteq> [] \<and> last r = 62 \<and> 62 \<notin> set (butlast r))"

text \<open>\<open>/-\s*\[\s*\]/\<close> at the head of \<open>s\<close>.\<close>

definition checkbox_at :: "js_string \<Rightarrow> bool" where
  "checkbox_at s =
     (startsWith s (js ''-'')
      \<and> (let r = dropWhile isWhiteSpace (drop 1 s)
         in startsWith r (js ''['') \<and> startsWith (dropWhile isWhiteSpace (drop 1 r)) (js '']'')))"

definition evaluateTicketReady :: "js_string \<Rightarrow> ReadyCheckResult" where
  "evaluateTicketReady bodyMd =
     (let body = js_trim bodyMd;
          goal = sectionContent body (js ''Goal (one sentence)'');
          deliverable = sectionContent body (js ''Human-verifiable deliverable (UI-only)'');
          ac = sectionContent body (js ''Acceptance criteria (UI-only)'');
          constraints = sectionContent body (js ''Constraints'');
          nonGoals = sectionContent body (js ''Non-goals'');
          goalPlaceholders = placeholders_in goal;
          deliverablePlaceholders = placeholders_in deliverable;
          goalOk = (length goal > 0 \<and> length goalPlaceholders = 0 \<and> \<not> whole_angle (js_trim goal));
          deliverableOk = (length deliverable > 0 \<and> length deliverablePlaceholders = 0);
          acOk = test_anywhere checkbox_at ac;
          constraintsOk = (length constraints > 0);
          nonGoalsOk = (length nonGoals > 0);
          placeholders = placeholders_in body;
          noPlaceholdersOk = (length placeholders = 0);
          missing =
            (if \<not> goalOk then [js ''Goal (one sentence) missing or placeholder''] else [])
            @ (if \<not> deliverableOk
               then [js ''Human-verifiable deliverable missing or placeholder''] else [])
            @ (if \<not> acOk then [js ''Acceptance criteria checkboxes missing''] else [])
            @ (if \<not> constraintsOk then [js ''Constraints section missing or empty''] else [])
            @ (if \<not> nonGoalsOk then [js ''Non-goals section missing or empty''] else [])
            @ (if \<not> noPlaceholdersOk
               then [js ''Unresolved placeholders: '' @ js_join (js '', '') placeholders] else [])
      in \<lparr>ready = (goalOk \<and> deliverableOk \<and> acOk \<and> constraintsOk \<and> nonGoalsOk \<and> noPlaceholdersOk),
          missingItems = missing,
          checklistResults =
            \<lparr>goal = goalOk, deliverable = deliverableOk, acceptanceCriteria = acOk,
             constraintsNonGoals = (constraintsOk \<and> nonGoalsOk),
             noPlaceholders = noPlaceholdersOk\<rparr>\<rparr>)"




section \<open>String helpers of the ticket tools (projectManager.ts)\<close>

definition is_digit :: "int \<Rightarrow> bool" where
  "is_digit c = (48 \<le> c \<and> c \<le> 57)"

definition is_lower_alnum :: "int \<Rightarrow> bool" where
  "is_lower_alnum c = ((97 \<le> c \<and> c \<le> 122) \<or> is_digit c)"

definition is_ascii_letter :: "int \<Rightarrow> bool" where
  "is_ascii_letter c = ((65 \<le> c \<and> c \<le> 90) \<or> (97 \<le> c \<and> c \<le> 122))"

text \<open>\<open>LineTerminator\<close>: what the dot of a regular expression does not match, and where
  \<open>^\<close> and \<open>$\<close> hold under the flag \<open>m\<close>.\<close>

definition isLineTerminator :: "int \<Rightarrow> bool" where
  "isLineTerminator c = (c = 10 \<or> c = 13 \<or> c = 8232 \<or> c = 8233)"

text \<open>
  \<open>toLowerCase\<close>: the ASCII letters, and the two code units outside ASCII whose lower
  case holds an ASCII letter (U+0130 and the Kelvin sign U+212A). Every other code unit
  is left as it is: each use below only looks for ASCII text in the result, and no other
  code unit becomes ASCII. \<open>toUpperCase\<close> is only applied to ASCII letters and digits.
\<close>

definition js_toLowerCase :: "js_string \<Rightarrow> js_string" where
  "js_toLowerCase s =
     concat (map (\<lambda>c. if 65 \<le> c \<and> c \<le> 90 then [c + 32]
                       else if c = 304 then [105, 775]
                       else if c = 8490 then [107] else [c]) s)"

definition js_toUpperCase :: "js_string \<Rightarrow> js_string" where
  "js_toUpperCase s = map (\<lambda>c. if 97 \<le> c \<and> c \<le> 122 then c - 32 else c) s"

text \<open>\<open>String.prototype.includes\<close>.\<close>

definition js_includes :: "js_string \<Rightarrow> js_string \<Rightarrow> bool" where
  "js_includes s p = test_anywhere (\<lambda>t. startsWith t p) s"

text \<open>\<open>String(n)\<close> for an integer and \<open>padStart(4, '0')\<close>.\<close>

definition js_of_int :: "int \<Rightarrow> js_string" where
  "js_of_int i = (if i < 0 then 45 # decimal (nat (- i)) else decimal (nat i))"

definition padStart4 :: "js_string \<Rightarrow> js_string" where
  "padStart4 s = replicate (4 - length s) 48 @ s"

text \<open>\<open>parseInt(s, 10)\<close>: leading white space, an optional sign, then the leading digits;
  \<open>None\<close> is \<open>NaN\<close>.\<close>

definition digits_value :: "js_string \<Rightarrow> int" where
  "digits_value ds = foldl (\<lambda>a c. 10 * a + (c - 48)) 0 ds"

definition js_parseInt :: "js_string \<Rightarrow> int option" where
  "js_parseInt s =
     (let t = dropWhile isWhiteSpace s;
          neg = startsWith t (js ''-'');
          u = (if neg \<or> startsWith t (js ''+'') then drop 1 t else t);
          ds = takeWhile is_digit u
      in if ds = [] then None else Some (if neg then - digits_value ds else digits_value ds))"

text \<open>The maximal runs of code units that satisfy \<open>p\<close>:
  \<open>s.split(/[^...]+/g).filter(Boolean)\<close> for the complement class.\<close>

function runs_of :: "(int \<Rightarrow> bool) \<Rightarrow> js_string \<Rightarrow> js_string list" where
  "runs_of p [] = []"
| "runs_of p (c # cs) =
     (if p c then takeWhile p (c # cs) # runs_of p (dropWhile p cs) else runs_of p cs)"
  by pat_completeness auto
termination
  by (relation "measure (\<lambda>(p, s). length s)") (auto simp: length_dropWhile_le less_Suc_eq_le)

text \<open>\<open>s.replace(/X+/g, '-')\<close> for a class \<open>X\<close>: every maximal run becomes one hyphen.\<close>

function squeeze :: "(int \<Rightarrow> bool) \<Rightarrow> js_string \<Rightarrow> js_string" where
  "squeeze p [] = []"
| "squeeze p (c # cs) =
     (if p c then 45 # squeeze p (dropWhile p cs) else c # squeeze p cs)"
  by pat_completeness auto
termination
  by (relation "measure (\<lambda>(p, s). length s)") (auto simp: length_dropWhile_le less_Suc_eq_le)

text \<open>\<open>slugFromTitle\<close>. The last replacement, \<open>/^-|-$/g\<close>, removes one hyphen at the
  start and one at the end.\<close>

definition slugFromTitle :: "js_string \<Rightarrow> js_string" where
  "slugFromTitle title =
     (let s1 = js_toLowerCase (js_trim title);
          s2 = squeeze isWhiteSpace s1;
          s3 = filter (\<lambda>c. is_lower_alnum c \<or> c = 45) s2;
          s4 = squeeze (\<lambda>c. c = 45) s3;
          s5 = (if startsWith s4 (js ''-'') then drop 1 s4 else s4);
          s6 = (if s5 \<noteq> [] \<and> last s5 = 45 then butlast s5 else s5)
      in if s6 = [] then js ''ticket'' else s6)"

definition isUnknownColumnError :: "js_string \<times> js_string \<Rightarrow> bool" where
  "isUnknownColumnError e =
     (let msg = js_toLowerCase (snd e)
      in fst e = js ''42703'' \<or> (js_includes msg (js ''column'') \<and> js_includes msg (js ''does not exist'')))"

definition isUniqueViolation :: "(js_string \<times> js_string) option \<Rightarrow> bool" where
  "isUniqueViolation err =
     (case err of
        None \<Rightarrow> False
      | Some e \<Rightarrow>
          fst e = js ''23505''
          \<or> (let msg = js_toLowerCase (snd e)
             in js_includes msg (js ''duplicate key'') \<or> js_includes msg (js ''unique constraint'')))"

text \<open>\<open>repoHintPrefix\<close>: the loop runs over the tokens from the last to the first.\<close>

definition repoHintPrefix :: "js_string \<Rightarrow> js_string" where
  "repoHintPrefix repoFullName =
     (let repo = last (split_on 47 repoFullName);
          tokens = runs_of is_lower_alnum (js_toLowerCase repo)
      in case find (\<lambda>t. list_ex (\<lambda>c. 97 \<le> c \<and> c \<le> 122) t \<and> 2 \<le> length t \<and> length t \<le> 6)
                (rev tokens) of
           Some t \<Rightarrow> js_toUpperCase t
         | None \<Rightarrow>
             (let letters = js_toUpperCase (filter is_ascii_letter repo)
              in js_toUpperCase (if take 4 letters = [] then js ''PRJ'' else take 4 letters)))"

text \<open>
  \<open>parseTicketNumber\<close>. The expression \<open>/(\d{1,4})(?!.*\d)/\<close> at the head of \<open>s\<close>: the
  group takes four digits, or fewer when the lookahead fails after four; the lookahead
  holds when no digit follows before the next line terminator (the dot does not pass
  one). \<open>match\<close> gives the leftmost match.
\<close>

definition no_digit_ahead :: "js_string \<Rightarrow> bool" where
  "no_digit_ahead r = (\<not> list_ex is_digit (takeWhile (\<lambda>c. \<not> isLineTerminator c) r))"

definition ticket_digits_at :: "js_string \<Rightarrow> js_string option" where
  "ticket_digits_at s =
     (let d = length (takeWhile is_digit s)
      in case find (\<lambda>n. n \<le> d \<and> no_digit_ahead (drop n s)) [4, 3, 2, 1] of
           Some n \<Rightarrow> Some (take n s)
         | None \<Rightarrow> None)"

fun first_match :: "(js_string \<Rightarrow> 'a option) \<Rightarrow> js_string \<Rightarrow> 'a option" where
  "first_match m [] = m []"
| "first_match m (c # cs) =
     (case m (c # cs) of Some x \<Rightarrow> Some x | None \<Rightarrow> first_match m cs)"

definition parseTicketNumber :: "js_string \<Rightarrow> int option" where
  "parseTicketNumber ref =
     (let s = js_trim ref
      in if s = [] then None
         else case first_match ticket_digits_at s of
                None \<Rightarrow> None
              | Some m1 \<Rightarrow> js_parseInt m1)"

text \<open>
  One replacement of \<open>normalizeBodyForReady\<close>: \<open>/^PAT\s*$/gm\<close>, where \<open>PAT\<close> is a
  literal that starts with \<open>#\<close>. A match starts at a line start; \<open>\s*\<close> takes the white
  space after the literal up to the last place where the input ends or a line
  terminator follows. The scan carries whether it stands at a line start.
\<close>

definition heading_match :: "js_string \<Rightarrow> js_string \<Rightarrow> nat option" where
  "heading_match pat s =
     (if startsWith s pat
      then (let r = drop (length pat) s; w = takeWhile isWhiteSpace r
            in if drop (length w) r = [] then Some (length pat + length w)
               else if list_ex isLineTerminator w
                    then Some (length pat + length w
                               - Suc (length (takeWhile (\<lambda>c. \<not> isLineTerminator c) (rev w))))
                    else None)
      else None)"

function heading_replace :: "js_string \<Rightarrow> js_string \<Rightarrow> bool \<Rightarrow> js_string \<Rightarrow> js_string" where
  "heading_replace pat repl atLineStart [] = []"
| "heading_replace pat repl atLineStart (c # cs) =
     (case (if atLineStart then heading_match pat (c # cs) else None) of
        Some n \<Rightarrow>
          if 0 < n
          then repl @ heading_replace pat repl (isLineTerminator (last (take n (c # cs))))
                        (drop n (c # cs))
          else c # heading_replace pat repl (isLineTerminator c) cs
      | None \<Rightarrow> c # heading_replace pat repl (isLineTerminator c) cs)"
  by pat_completeness auto
termination
  by (relation "measure (\<lambda>(pat, repl, b, s). length s)") auto

definition normalizeBodyForReady :: "js_string \<Rightarrow> js_string" where
  "normalizeBodyForReady bodyMd =
     (let out0 = js_trim bodyMd;
          out1 = heading_replace (js ''# Goal'') (js ''## Goal (one sentence)'') True out0;
          out2 = heading_replace (js ''# Human-verifiable deliverable'')
                   (js ''## Human-verifiable deliverable (UI-only)'') True out1;
          out3 = heading_replace (js ''# Acceptance criteria'')
                   (js ''## Acceptance criteria (UI-only)'') True out2;
          out4 = heading_replace (js ''# Constraints'') (js ''## Constraints'') True out3;
          out5 = heading_replace (js ''# Non-goals'') (js ''## Non-goals'') True out4
      in out5)"

section \<open>Title line and Acceptance criteria rewriting (projectManager.ts)\<close>

text \<open>
  \<open>String.prototype.replace\<close> with a replacement string expands the patterns \<open>$$\<close>,
  \<open>$&\<close>, \<open>$`\<close>, \<open>$'\<close>, \<open>$n\<close> and \<open>$nn\<close> in it (\<open>GetSubstitution\<close> of ECMAScript; the
  expressions here have no named groups, so \<open>$<\<close> stands for itself). \<open>caps\<close> are the
  groups of the match, \<open>m0\<close> the match, \<open>pre\<close> and \<open>post\<close> the input before and after it.
\<close>

function expand_replacement ::
    "js_string list \<Rightarrow> js_string \<Rightarrow> js_string \<Rightarrow> js_string \<Rightarrow> js_string \<Rightarrow> js_string" where
  "expand_replacement caps m0 pre post [] = []"
| "expand_replacement caps m0 pre post (c # r) =
     (if c \<noteq> 36 then c # expand_replacement caps m0 pre post r
      else (case r of
              [] \<Rightarrow> [36]
            | d # r' \<Rightarrow>
                if d = 36 then 36 # expand_replacement caps m0 pre post r'
                else if d = 38 then m0 @ expand_replacement caps m0 pre post r'
                else if d = 96 then pre @ expand_replacement caps m0 pre post r'
                else if d = 39 then post @ expand_replacement caps m0 pre post r'
                else if is_digit d
                then (case r' of
                        [] \<Rightarrow>
                          if 1 \<le> nat (d - 48) \<and> nat (d - 48) \<le> length caps
                          then caps ! (nat (d - 48) - 1) else [36, d]
                      | d2 # r'' \<Rightarrow>
                          if is_digit d2 \<and> nat (10 * (d - 48) + (d2 - 48)) \<le> length caps
                          then (if 1 \<le> nat (10 * (d - 48) + (d2 - 48))
                                then caps ! (nat (10 * (d - 48) + (d2 - 48)) - 1)
                                     @ expand_replacement caps m0 pre post r''
                                else [36, d, d2] @ expand_replacement caps m0 pre post r'')
                          else if 1 \<le> nat (d - 48) \<and> nat (d - 48) \<le> length caps
                               then caps ! (nat (d - 48) - 1) @ expand_replacement caps m0 pre post r'
                               else [36, d] @ expand_replacement caps m0 pre post r')
                else 36 # expand_replacement caps m0 pre post r))"
  by pat_completeness auto
termination
  by (relation "measure (\<lambda>(caps, m0, pre, post, s). length s)") auto

text \<open>
  \<open>titleLineRegex = /(- \*\*Title\*\*:\s*)(.+?)(?:\n|$)/\<close> at the head of \<open>s\<close>. The
  value group is a non-empty run without line terminators that ends at a line feed or
  at the end of the input; \<open>\s*\<close> gives white space back, from the whole run down to
  nothing, until such a value starts after it. The result: the length of the first group,
  the length of the value, and whether a line feed ends the match.
\<close>

definition title_value_after :: "js_string \<Rightarrow> nat \<Rightarrow> (nat \<times> nat \<times> bool) option" where
  "title_value_after r n =
     (let q = drop n r; v = takeWhile (\<lambda>c. \<not> isLineTerminator c) q; after = drop (length v) q
      in if v \<noteq> [] \<and> (after = [] \<or> startsWith after [10])
         then Some (12 + n, length v, after \<noteq> []) else None)"

definition title_line_at :: "js_string \<Rightarrow> (nat \<times> nat \<times> bool) option" where
  "title_line_at s =
     (if startsWith s (js ''- **Title**:'')
      then (let r = drop 12 s; w = length (takeWhile isWhiteSpace r)
            in case find (\<lambda>n. title_value_after r n \<noteq> None) (rev [0..<Suc w]) of
                 Some n \<Rightarrow> title_value_after r n
               | None \<Rightarrow> None)
      else None)"

text \<open>
  The expression that removes an old ID prefix from the title,
  \<open>/^(?:[A-Za-z0-9]{2,10}-)?\d{4}\s*[...]\s*/\<close> (the class holds the em dash 8212, the en
  dash 8211 and the hyphen): the length of its match at the start of \<open>s\<close>. The optional group is the whole run of letters and digits when it has 2 to 10
  of them and a hyphen follows; it is tried first and dropped when the rest fails.
\<close>

definition id_tail_len :: "js_string \<Rightarrow> nat option" where
  "id_tail_len s =
     (if length (take 4 s) = 4 \<and> list_all is_digit (take 4 s)
      then (let r = drop 4 s; w = length (takeWhile isWhiteSpace r); r2 = drop w r
            in if r2 \<noteq> [] \<and> (hd r2 = 8212 \<or> hd r2 = 8211 \<or> hd r2 = 45)
               then Some (4 + w + 1 + length (takeWhile isWhiteSpace (drop 1 r2)))
               else None)
      else None)"

definition id_prefix_len :: "js_string \<Rightarrow> nat option" where
  "id_prefix_len s =
     (let n = length (takeWhile is_alnum s);
          grouped = (if 2 \<le> n \<and> n \<le> 10 \<and> startsWith (drop n s) (js ''-'')
                     then (case id_tail_len (drop (n + 1) s) of
                             Some t \<Rightarrow> Some (n + 1 + t) | None \<Rightarrow> None)
                     else None)
      in case grouped of Some k \<Rightarrow> Some k | None \<Rightarrow> id_tail_len s)"

definition normalizeTitleLineInBody :: "js_string \<Rightarrow> js_string \<Rightarrow> js_string" where
  "normalizeTitleLineInBody bodyMd ticketId =
     (if bodyMd = [] \<or> ticketId = [] then bodyMd
      else case first_index title_line_at bodyMd of
             None \<Rightarrow> bodyMd
           | Some (i, plen, vlen, hasNl) \<Rightarrow>
               (let pre = take i bodyMd;
                    m0 = take (plen + vlen + (if hasNl then 1 else 0)) (drop i bodyMd);
                    post = drop (plen + vlen + (if hasNl then 1 else 0)) (drop i bodyMd);
                    prefix = take plen m0;
                    m2 = take vlen (drop plen m0);
                    idPrefix = ticketId @ [32, 8212, 32];
                    trimmed = js_trim m2;
                    titleValue = (case id_prefix_len trimmed of
                                    Some k \<Rightarrow> drop k trimmed | None \<Rightarrow> trimmed);
                    normalizedTitle = idPrefix @ titleValue;
                    normalizedLine = prefix @ normalizedTitle @ (if hasNl then [10] else [])
                in pre @ expand_replacement [prefix, m2] m0 pre post normalizedLine @ post))"

text \<open>
  The two expressions of the auto-fix of \<open>create_ticket\<close>, both with the flag \<open>m\<close>:
  \<open>/^[\s]*[-*+]\s+/\<close> (is there a bullet line) and \<open>/^(\s*)[-*+]\s+/g\<close> (replaced by
  \<open>$1- [ ] \<close>). At a line start the white space is taken whole, then one of \<open>-\<close>, \<open>*\<close>, \<open>+\<close>,
  then at least one white space. The result: the lengths of the leading white space and of
  the match.
\<close>

definition bullet_at :: "js_string \<Rightarrow> (nat \<times> nat) option" where
  "bullet_at s =
     (let w = length (takeWhile isWhiteSpace s); r = drop w s
      in if r \<noteq> [] \<and> (hd r = 45 \<or> hd r = 42 \<or> hd r = 43)
            \<and> takeWhile isWhiteSpace (drop 1 r) \<noteq> []
         then Some (w, w + 1 + length (takeWhile isWhiteSpace (drop 1 r)))
         else None)"

fun has_bullet_line :: "bool \<Rightarrow> js_string \<Rightarrow> bool" where
  "has_bullet_line atLineStart [] = False"
| "has_bullet_line atLineStart (c # cs) =
     ((atLineStart \<and> bullet_at (c # cs) \<noteq> None) \<or> has_bullet_line (isLineTerminator c) cs)"

function bullets_to_checkboxes :: "bool \<Rightarrow> js_string \<Rightarrow> js_string" where
  "bullets_to_checkboxes atLineStart [] = []"
| "bullets_to_checkboxes atLineStart (c # cs) =
     (case (if atLineStart then bullet_at (c # cs) else None) of
        Some (w, n) \<Rightarrow>
          if 0 < n
          then take w (c # cs) @ js ''- [ ] ''
               @ bullets_to_checkboxes (isLineTerminator (last (take n (c # cs)))) (drop n (c # cs))
          else c # bullets_to_checkboxes (isLineTerminator c) cs
      | None \<Rightarrow> c # bullets_to_checkboxes (isLineTerminator c) cs)"
  by pat_completeness auto
termination
  by (relation "measure (\<lambda>(b, s). length s)") auto

text \<open>
  The auto-fix: when the Acceptance criteria section is not empty, has no checkbox and
  has a bullet line, its bullets become checkboxes and the section is written back with
  \<open>finalBodyMd.replace(acRegex, `$1${fixedAc}\n`)\<close>, a replacement string again. \<open>None\<close>
  when the conditions do not hold (\<open>acRegex\<close> finds the section whenever
  \<open>sectionContent\<close> did, so \<open>match\<close> is never \<open>null\<close> there).
\<close>

definition autoFixAcceptanceCriteria :: "js_string \<Rightarrow> js_string option" where
  "autoFixAcceptanceCriteria finalBodyMd =
     (let acSection = sectionContent finalBodyMd (js ''Acceptance criteria (UI-only)'')
      in if acSection \<noteq> [] \<and> \<not> test_anywhere checkbox_at acSection \<and> has_bullet_line True acSection
         then (let fixedAc = bullets_to_checkboxes True acSection
               in case first_index (section_at (js ''Acceptance criteria (UI-only)'')) finalBodyMd of
                    None \<Rightarrow> None
                  | Some (i, h, g) \<Rightarrow>
                      (let pre = take i finalBodyMd;
                           m0 = take (h + length g) (drop i finalBodyMd);
                           post = drop (h + length g) (drop i finalBodyMd)
                       in Some (pre @ expand_replacement [take h m0, g] m0 pre post
                                        (js ''$1'' @ fixedAc @ [10]) @ post)))
         else None)"

section \<open>The backing store, as the tools see it\<close>

text \<open>
  The Supabase client is an external collaborator. A tool builds a query on the table
  \<open>tickets\<close> and awaits \<open>{data, error}\<close>. The queries are modelled as data: a select
  with its columns, \<open>eq\<close> filters, \<open>order\<close> clauses (\<open>True\<close> is ascending), \<open>limit\<close>, and
  whether \<open>maybeSingle()\<close> was asked; an insert with its row; an update with its fields
  and \<open>eq\<close> filters. A response is the rows (none for \<open>data: null\<close>) or the error, a
  pair of \<open>code\<close> and \<open>message\<close>.

  Nothing is assumed about how the store answers: its state is the list of queries it
  has received and a function \<open>answer\<close> from that history to the response of the last
  query. Every store, with any interleaving of other writers, is one such function.
\<close>

datatype column =
    Col_pk | Col_id | Col_display_id | Col_repo_full_name | Col_ticket_number | Col_filename
  | Col_title | Col_body_md | Col_kanban_column_id | Col_kanban_position | Col_kanban_moved_at

datatype db_value = VNull | VStr js_string | VNum int

type_synonym row = "(column \<times> db_value) list"

type_synonym db_error = "js_string \<times> js_string"

datatype query =
    Select "column list" "(column \<times> db_value) list" "(column \<times> bool) list" "nat option" bool
  | Insert row
  | Update row "(column \<times> db_value) list"

datatype response = Rows "row list" | Failed db_error

record store =
  answer :: "query list \<Rightarrow> response"
  queries :: "query list"

definition run :: "query \<Rightarrow> store \<Rightarrow> response \<times> store" where
  "run q st = (answer st (queries st @ [q]), st\<lparr>queries := queries st @ [q]\<rparr>)"

text \<open>Reading a property of a row: \<open>x ?? d\<close> for a string, and the typed reads.\<close>

definition str_or :: "js_string \<Rightarrow> db_value option \<Rightarrow> js_string" where
  "str_or d v = (case v of Some (VStr s) \<Rightarrow> s | Some (VNum n) \<Rightarrow> js_of_int n | _ \<Rightarrow> d)"

definition str_opt :: "db_value option \<Rightarrow> js_string option" where
  "str_opt v = (case v of Some (VStr s) \<Rightarrow> Some s | Some (VNum n) \<Rightarrow> Some (js_of_int n) | _ \<Rightarrow> None)"

definition num_opt :: "db_value option \<Rightarrow> int option" where
  "num_opt v = (case v of Some (VNum n) \<Rightarrow> Some n | _ \<Rightarrow> None)"

text \<open>What the tools read from their surroundings besides the store: the clock (read
  before the insert loop and again before the move) and \<open>crypto.randomUUID()\<close>, drawn
  for the insert of each attempt and again for its legacy insert.\<close>

record env =
  now :: js_string
  now_moved :: js_string
  randomUUID :: "nat \<Rightarrow> bool \<Rightarrow> js_string"


definition COL_TODO :: js_string where
  "COL_TODO = js ''col-todo''"

definition MAX_CREATE_TICKET_RETRIES :: nat where
  "MAX_CREATE_TICKET_RETRIES = 10"

text \<open>\<open>[...new Set(xs)]\<close>: the first occurrence of each element, in order.\<close>

definition unique_first :: "'a list \<Rightarrow> 'a list" where
  "unique_first xs = rev (remdups (rev xs))"

text \<open>The \<open>reduce\<close> over the rows of the To Do column:
  \<open>Math.max(acc, r.kanban_position ?? 0)\<close> from 0.\<close>

definition max_position :: "row list \<Rightarrow> int" where
  "max_position rows =
     foldl (\<lambda>acc r. max acc (case num_opt (map_of r Col_kanban_position) of
                                  Some p \<Rightarrow> p | None \<Rightarrow> 0)) 0 rows"

text \<open>\<open>config.projectId\<close>, trimmed, or the default when it is missing or blank.\<close>

definition project_or :: "js_string \<Rightarrow> js_string option \<Rightarrow> js_string" where
  "project_or d p = (case p of Some s \<Rightarrow> if js_trim s \<noteq> [] then js_trim s else d | None \<Rightarrow> d)"

section \<open>The ticket tools of \<open>runPmAgent\<close>\<close>

text \<open>
  Each \<open>execute\<close> is a function from the store to its output and the store after it.
  Every path of an \<open>execute\<close> pushes one entry \<open>{name, input, output}\<close> onto \<open>toolCalls\<close>
  and returns that output; the \<open>tool_...\<close> functions below do the push. The Supabase
  client returns its errors in \<open>error\<close>, so the \<open>catch\<close> blocks have no path here.
\<close>

definition placeholder_rejection :: "js_string \<Rightarrow> js_string \<Rightarrow> js_string \<Rightarrow> js_string list \<Rightarrow> js_string" where
  "placeholder_rejection what stage verb ps =
     js ''Ticket '' @ what @ js '' rejected: unresolved template placeholder tokens detected''
     @ stage @ js ''. Detected placeholders: '' @ js_join (js '', '') ps
     @ js ''. Replace all angle-bracket placeholders with concrete content before '' @ verb
     @ js '' the ticket.''"

text \<open>The filters of the updates of \<open>create_ticket\<close>:
  \<open>repoFullName !== 'legacy/unknown' && candidateNum\<close> chooses the repo-scoped key.\<close>

definition created_key :: "js_string \<Rightarrow> int \<Rightarrow> js_string \<Rightarrow> (column \<times> db_value) list" where
  "created_key repoFullName candidateNum i =
     (if repoFullName \<noteq> js ''legacy/unknown'' \<and> candidateNum \<noteq> 0
      then [(Col_repo_full_name, VStr repoFullName), (Col_ticket_number, VNum candidateNum)]
      else [(Col_id, VStr i)])"

text \<open>
  \<open>create_ticket\<close> after a successful insert: readiness, the auto-fix, the move to To Do,
  and the result.
\<close>

definition create_after_insert ::
    "env \<Rightarrow> js_string \<Rightarrow> js_string \<Rightarrow> int \<Rightarrow> nat \<Rightarrow> js_string \<Rightarrow> js_string \<Rightarrow> js_string
       \<Rightarrow> js_string \<Rightarrow> store \<Rightarrow> CreateResult \<times> store" where
  "create_after_insert E repoFullName displayId candidateNum attempt i filename filePath
       normalizedBodyMd st =
     (let readiness0 = evaluateTicketReady normalizedBodyMd;
          (readiness, autoFixed, st1) =
            (if \<not> ready readiness0
             then (case autoFixAcceptanceCriteria normalizedBodyMd of
                     None \<Rightarrow> (readiness0, False, st)
                   | Some fixed \<Rightarrow>
                       if ready (evaluateTicketReady fixed)
                       then (let (r, st') = run (Update [(Col_body_md, VStr fixed)]
                                                   (created_key repoFullName candidateNum i)) st
                             in case r of
                                  Failed e \<Rightarrow> (evaluateTicketReady normalizedBodyMd, False, st')
                                | Rows d \<Rightarrow> (evaluateTicketReady fixed, True, st'))
                       else (evaluateTicketReady fixed, True, st))
             else (readiness0, False, st));
          (movedToTodo, moveError, st2) =
            (if ready readiness
             then (let (todoR, st') =
                         run (Select [Col_kanban_position]
                                ((Col_kanban_column_id, VStr COL_TODO)
                                 # (if repoFullName \<noteq> js ''legacy/unknown''
                                    then [(Col_repo_full_name, VStr repoFullName)] else []))
                                [(Col_kanban_position, False)] (Some 1) False) st1;
                       (nextTodoPosition, fetchError, st'') =
                         (case todoR of
                            Failed e \<Rightarrow>
                              if isUnknownColumnError e
                              then (let (legacyTodo, st'') =
                                          run (Select [Col_kanban_position]
                                                 [(Col_kanban_column_id, VStr COL_TODO)]
                                                 [(Col_kanban_position, False)] (Some 1) False) st'
                                    in case legacyTodo of
                                         Failed e' \<Rightarrow>
                                           (0, Some (js ''Failed to fetch To Do position: '' @ snd e'), st'')
                                       | Rows d \<Rightarrow> (max_position d + 1, None, st''))
                              else (0, Some (js ''Failed to fetch To Do position: '' @ snd e), st')
                          | Rows d \<Rightarrow> (max_position d + 1, None, st'))
                   in case fetchError of
                        Some err \<Rightarrow> (False, Some err, st'')
                      | None \<Rightarrow>
                          (let (updateResult, st''') =
                                 run (Update [(Col_kanban_column_id, VStr COL_TODO),
                                              (Col_kanban_position, VNum nextTodoPosition),
                                              (Col_kanban_moved_at, VStr (now_moved E))]
                                        (created_key repoFullName candidateNum i)) st''
                           in case updateResult of
                                Failed e \<Rightarrow> (False, Some (js ''Failed to move to To Do: '' @ snd e), st''')
                              | Rows d \<Rightarrow> (True, None, st''')))
             else (False, None, st1))
      in (CreateOk i displayId candidateNum repoFullName filename filePath
            (if attempt > 1 then Some attempt else None)
            (ready readiness)
            (if length (missingItems readiness) > 0 then Some (missingItems readiness) else None)
            autoFixed movedToTodo moveError,
          st2))"

text \<open>
  The retry loop of \<open>create_ticket\<close>:
  \<open>for (let attempt = 1; attempt <= MAX_CREATE_TICKET_RETRIES; attempt++)\<close>, and the
  statement after it. \<open>lastInsertError\<close> is \<open>None\<close> for \<open>null\<close>; \<open>idPrefix\<close> is the
  \<open>prefix\<close> of the source.
\<close>

function create_loop ::
    "env \<Rightarrow> js_string \<Rightarrow> js_string \<Rightarrow> js_string \<Rightarrow> js_string \<Rightarrow> js_string \<Rightarrow> int \<Rightarrow> nat
       \<Rightarrow> db_error option \<Rightarrow> store \<Rightarrow> CreateResult \<times> store" where
  "create_loop E repoFullName idPrefix slug title bodyMdTrimmed startNum attempt lastInsertError st =
     (if \<not> attempt \<le> MAX_CREATE_TICKET_RETRIES
      then (CreateErr (js ''Could not reserve a ticket ID after '' @ decimal MAX_CREATE_TICKET_RETRIES
                       @ js '' attempts (id/filename collision). Last: ''
                       @ (case lastInsertError of Some e \<Rightarrow> snd e | None \<Rightarrow> js ''unknown''))
              None, st)
      else (let candidateNum = startNum + int attempt - 1;
                i = padStart4 (js_of_int candidateNum);
                displayId = idPrefix @ js ''-'' @ i;
                filename = i @ js ''-'' @ slug @ js ''.md'';
                filePath = js ''supabase:tickets/'' @ displayId;
                normalizedBodyMd = normalizeTitleLineInBody bodyMdTrimmed displayId;
                normalizedPlaceholders = placeholders_in normalizedBodyMd
            in if length normalizedPlaceholders > 0
               then (CreateErr (placeholder_rejection (js ''creation'') (js '' after normalization'')
                                  (js ''creating'') (unique_first normalizedPlaceholders))
                       (Some (unique_first normalizedPlaceholders)), st)
               else (let (r, st1) =
                           run (Insert [(Col_pk, VStr (randomUUID E attempt False)),
                                        (Col_repo_full_name, VStr repoFullName),
                                        (Col_ticket_number, VNum candidateNum),
                                        (Col_display_id, VStr displayId),
                                        (Col_id, VStr i),
                                        (Col_filename, VStr filename),
                                        (Col_title, VStr (js_trim title)),
                                        (Col_body_md, VStr normalizedBodyMd),
                                        (Col_kanban_column_id, VStr (js ''col-unassigned'')),
                                        (Col_kanban_position, VNum 0),
                                        (Col_kanban_moved_at, VStr (now E))]) st;
                         (insertError, st2) =
                           (case r of
                              Rows d \<Rightarrow> (None, st1)
                            | Failed e \<Rightarrow>
                                if isUnknownColumnError e
                                then (let (legacy, st') =
                                            run (Insert [(Col_pk, VStr (randomUUID E attempt True)),
                                                         (Col_id, VStr i),
                                                         (Col_filename, VStr filename),
                                                         (Col_title, VStr (i @ [32, 8212, 32] @ js_trim title)),
                                                         (Col_body_md,
                                                          VStr (normalizeTitleLineInBody bodyMdTrimmed i)),
                                                         (Col_kanban_column_id, VStr (js ''col-unassigned'')),
                                                         (Col_kanban_position, VNum 0),
                                                         (Col_kanban_moved_at, VStr (now E))]) st1
                                      in case legacy of
                                           Rows d \<Rightarrow> (None, st')
                                         | Failed e' \<Rightarrow> (Some e', st'))
                                else (Some e, st1))
                     in case insertError of
                          None \<Rightarrow>
                            create_after_insert E repoFullName displayId candidateNum attempt i
                              filename filePath normalizedBodyMd st2
                        | Some e \<Rightarrow>
                            if \<not> isUniqueViolation (Some e)
                            then (CreateErr (js ''Supabase insert: '' @ snd e) None, st2)
                            else create_loop E repoFullName idPrefix slug title bodyMdTrimmed startNum
                                   (Suc attempt) (Some e) st2)))"
  by pat_completeness auto
termination
  by (relation "measure (\<lambda>(E, repoFullName, idPrefix, slug, title, body, startNum, attempt, l, st).
        Suc MAX_CREATE_TICKET_RETRIES - attempt)") auto

text \<open>\<open>Math.max(...xs)\<close> for a list that is not empty.\<close>

definition list_max :: "int list \<Rightarrow> int" where
  "list_max xs = foldl max (hd xs) (tl xs)"

definition create_ticket_execute ::
    "env \<Rightarrow> PmAgentConfig \<Rightarrow> js_string \<Rightarrow> js_string \<Rightarrow> store \<Rightarrow> CreateResult \<times> store" where
  "create_ticket_execute E config title body_md st =
     (let bodyMdTrimmed0 = js_trim body_md;
          placeholders = placeholders_in bodyMdTrimmed0
      in if length placeholders > 0
         then (CreateErr (placeholder_rejection (js ''creation'') [] (js ''creating'')
                            (unique_first placeholders))
                 (Some (unique_first placeholders)), st)
         else (let bodyMdTrimmed = normalizeBodyForReady bodyMdTrimmed0;
                   repoFullName = project_or (js ''legacy/unknown'') (projectId config);
                   idPrefix = repoHintPrefix repoFullName;
                   slug = slugFromTitle title;
                   (r, st1) = run (Select [Col_ticket_number]
                                     [(Col_repo_full_name, VStr repoFullName)]
                                     [(Col_ticket_number, False)] (Some 1) False) st
               in case r of
                    Failed e \<Rightarrow>
                      if \<not> isUnknownColumnError e
                      then (CreateErr (js ''Supabase fetch max ticket_number: '' @ snd e) None, st1)
                      else (let (r2, st2) = run (Select [Col_id] [] [(Col_id, True)] None False) st1
                            in case r2 of
                                 Failed fetchError \<Rightarrow>
                                   (CreateErr (js ''Supabase fetch ids: '' @ snd fetchError) None, st2)
                               | Rows existingRows \<Rightarrow>
                                   (let ids = map (\<lambda>r. str_or [] (map_of r Col_id)) existingRows;
                                        numericIds =
                                          filter (\<lambda>n. n \<ge> 0)
                                            (map (\<lambda>i. case js_parseInt i of None \<Rightarrow> 0 | Some n \<Rightarrow> n) ids);
                                        startNum = (if length numericIds > 0
                                                    then list_max numericIds + 1 else 1)
                                    in create_loop E repoFullName idPrefix slug title bodyMdTrimmed
                                         startNum 1 None st2))
                  | Rows d \<Rightarrow>
                      (let startNum =
                             (case d of
                                [] \<Rightarrow> 1
                              | r0 # rest \<Rightarrow>
                                  (case num_opt (map_of r0 Col_ticket_number) of
                                     Some maxN \<Rightarrow> maxN + 1 | None \<Rightarrow> 1))
                       in create_loop E repoFullName idPrefix slug title bodyMdTrimmed
                            startNum 1 None st1)))"



text \<open>The guard shared by the tools that take a ticket reference: \<open>!ticketNumber\<close> holds
  for \<open>null\<close> and for 0.\<close>

definition could_not_parse :: "js_string \<Rightarrow> js_string" where
  "could_not_parse ticket_id =
     js ''Could not parse ticket number from \"'' @ ticket_id @ js ''\".''"

definition normalizedId_of :: "int option \<Rightarrow> js_string" where
  "normalizedId_of ticketNumber =
     padStart4 (js_of_int (case ticketNumber of Some n \<Rightarrow> n | None \<Rightarrow> 0))"



text \<open>
  The lookup shared by \<open>update_ticket_body\<close>, \<open>kanban_move_ticket_to_todo\<close> and
  \<open>kanban_move_ticket_to_other_repo_todo\<close>: by repository and number, falling back to
  the legacy id when the schema has no repository column, or by legacy id at once when
  no project is set (each select with its own column list). The result is \<open>(row, fetchError)\<close>.
\<close>

definition lookup_ticket ::
    "column list \<Rightarrow> column list \<Rightarrow> column list \<Rightarrow> js_string \<Rightarrow> int \<Rightarrow> js_string \<Rightarrow> store
       \<Rightarrow> (row option \<times> db_error option) \<times> store" where
  "lookup_ticket cols legacyCols globalCols repoFullName n normalizedId st =
     (let result = (\<lambda>r. case r of
                          Rows [] \<Rightarrow> (None, None)
                        | Rows (x # xs) \<Rightarrow> (Some x, None)
                        | Failed e \<Rightarrow> (None, Some e));
          legacyQ = Select legacyCols [(Col_id, VStr normalizedId)] [] None True;
          globalQ = Select globalCols [(Col_id, VStr normalizedId)] [] None True
      in if repoFullName \<noteq> []
         then (let (r, st1) = run (Select cols [(Col_repo_full_name, VStr repoFullName),
                                                 (Col_ticket_number, VNum n)] [] None True) st
               in case r of
                    Failed e \<Rightarrow>
                      if isUnknownColumnError e
                      then (let (lr, st2) = run legacyQ st1 in (result lr, st2))
                      else (result r, st1)
                  | Rows d \<Rightarrow> (result r, st1))
         else (let (lr, st1) = run globalQ st in (result lr, st1)))"

text \<open>The key of the final update: \<open>row.pk\<close> when the row has a truthy one, else the
  legacy id.\<close>

definition row_key :: "row \<Rightarrow> js_string \<Rightarrow> (column \<times> db_value) list" where
  "row_key row normalizedId =
     (case map_of row Col_pk of
        Some (VStr pk) \<Rightarrow> if pk \<noteq> [] then [(Col_pk, VStr pk)] else [(Col_id, VStr normalizedId)]
      | Some (VNum pk) \<Rightarrow> if pk \<noteq> 0 then [(Col_pk, VNum pk)] else [(Col_id, VStr normalizedId)]
      | other \<Rightarrow> [(Col_id, VStr normalizedId)])"

definition update_ticket_body_execute ::
    "PmAgentConfig \<Rightarrow> js_string \<Rightarrow> js_string \<Rightarrow> store \<Rightarrow> UpdateResult \<times> store" where
  "update_ticket_body_execute config ticket_id body_md st =
     (let ticketNumber = parseTicketNumber ticket_id;
          normalizedId = normalizedId_of ticketNumber;
          repoFullName = project_or [] (projectId config);
          bodyMdTrimmed0 = js_trim body_md;
          placeholders = placeholders_in bodyMdTrimmed0
      in if length placeholders > 0
         then (UpdateErr (placeholder_rejection (js ''update'') [] (js ''updating'')
                            (unique_first placeholders))
                 (Some (unique_first placeholders)), st)
         else (let bodyMdTrimmed = normalizeBodyForReady bodyMdTrimmed0
               in case ticketNumber of
                    None \<Rightarrow> (UpdateErr (could_not_parse ticket_id) None, st)
                  | Some n \<Rightarrow>
                      if n = 0 then (UpdateErr (could_not_parse ticket_id) None, st)
                      else (let ((row, fetchError), st1) =
                                  lookup_ticket [Col_pk, Col_id, Col_display_id] [Col_id] [Col_id]
                                    repoFullName n normalizedId st
                            in case fetchError of
                                 Some e \<Rightarrow> (UpdateErr (js ''Supabase fetch: '' @ snd e) None, st1)
                               | None \<Rightarrow>
                                   (case row of
                                      None \<Rightarrow>
                                        (UpdateErr (js ''Ticket '' @ normalizedId @ js '' not found.'') None,
                                         st1)
                                    | Some row \<Rightarrow>
                                        (let displayId =
                                               (case str_opt (map_of row Col_display_id) of
                                                  Some d \<Rightarrow> d | None \<Rightarrow> normalizedId);
                                             normalizedBodyMd =
                                               normalizeTitleLineInBody bodyMdTrimmed displayId;
                                             normalizedPlaceholders = placeholders_in normalizedBodyMd
                                         in if length normalizedPlaceholders > 0
                                            then (UpdateErr
                                                    (placeholder_rejection (js ''update'')
                                                       (js '' after normalization'') (js ''updating'')
                                                       (unique_first normalizedPlaceholders))
                                                    (Some (unique_first normalizedPlaceholders)), st1)
                                            else (let (u, st2) =
                                                        run (Update [(Col_body_md, VStr normalizedBodyMd)]
                                                               (row_key row normalizedId)) st1
                                                  in case u of
                                                       Failed updateError \<Rightarrow>
                                                         (UpdateErr (js ''Supabase update: ''
                                                                     @ snd updateError) None, st2)
                                                     | Rows d \<Rightarrow>
                                                         (let readiness = evaluateTicketReady normalizedBodyMd
                                                          in (UpdateOk normalizedId (ready readiness)
                                                                (if length (missingItems readiness) > 0
                                                                 then Some (missingItems readiness)
                                                                 else None), st2))))))))"




text \<open>The tools as \<open>runPmAgent\<close> wires them: the state of a turn is \<open>toolCalls\<close> and the
  store, and each call appends its entry.\<close>

record turn_state =
  ts_toolCalls :: "ToolCallRecord list"
  ts_db :: store

definition tool_create_ticket ::
    "env \<Rightarrow> PmAgentConfig \<Rightarrow> js_string \<Rightarrow> js_string \<Rightarrow> turn_state \<Rightarrow> CreateResult \<times> turn_state" where
  "tool_create_ticket E config title body_md s =
     (let (out, st) = create_ticket_execute E config title body_md (ts_db s)
      in (out, \<lparr>ts_toolCalls = ts_toolCalls s @ [Call_create_ticket title body_md out], ts_db = st\<rparr>))"


definition tool_update_ticket_body ::
    "PmAgentConfig \<Rightarrow> js_string \<Rightarrow> js_string \<Rightarrow> turn_state \<Rightarrow> UpdateResult \<times> turn_state" where
  "tool_update_ticket_body config ticket_id body_md s =
     (let (out, st) = update_ticket_body_execute config ticket_id body_md (ts_db s)
      in (out, \<lparr>ts_toolCalls = ts_toolCalls s @ [Call_update_ticket_body ticket_id body_md out], ts_db = st\<rparr>))"



section \<open>Fixtures for concrete runs\<close>

text \<open>A store that answers the k-th query it receives with the k-th response of a list
  (and with an error once the list is used up), a clock, and a configuration with a
  connected project.\<close>

definition scripted :: "response list \<Rightarrow> store" where
  "scripted rs =
     \<lparr>answer = (\<lambda>h. if length h - 1 < length rs then rs ! (length h - 1)
                     else Failed (js ''XX000'', js ''no answer scripted'')),
      queries = []\<rparr>"

definition env0 :: env where
  "env0 = \<lparr>now = js ''2026-01-01T00:00:00.000Z'', now_moved = js ''2026-01-01T00:00:01.000Z'',
            randomUUID = (\<lambda>attempt legacy. js ''00000000-0000-4000-8000-00000000000''
                            @ decimal (attempt mod 10))\<rparr>"

definition config_hal :: PmAgentConfig where
  "config_hal = \<lparr>conversationHistory = None, conversationContextPack = None,
                  projectId = Some (js ''acme/hal'')\<rparr>"

definition unique_violation :: db_error where
  "unique_violation =
     (js ''23505'', js ''duplicate key value violates unique constraint \"tickets_repo_number\"'')"

section \<open>The conversation window: proofs\<close>

lemma budget_loop_spec:
  assumes "len = sumLen recent" and "sumLen recent \<le> m \<or> length recent \<le> 1"
  shows "\<exists>k\<le>length xs. budget_loop m xs len recent = rev (take k xs) @ recent
           \<and> (sumLen (rev (take k xs) @ recent) \<le> m \<or> length (rev (take k xs) @ recent) \<le> 1)
           \<and> (k < length xs \<longrightarrow> m < sumLen (rev (take k xs) @ recent) + lineLen (xs ! k))
           \<and> (recent = [] \<and> xs \<noteq> [] \<longrightarrow> 1 \<le> k)"
  using assms
proof (induction xs arbitrary: len recent)
  case Nil
  then show ?case by simp
next
  case (Cons t older)
  show ?case
  proof (cases "len + lineLen t > m \<and> length recent > 0")
    case True
    with Cons.prems have "budget_loop m (t # older) len recent = rev (take 0 (t # older)) @ recent
        \<and> (sumLen (rev (take 0 (t # older)) @ recent) \<le> m
             \<or> length (rev (take 0 (t # older)) @ recent) \<le> 1)
        \<and> (0 < length (t # older)
             \<longrightarrow> m < sumLen (rev (take 0 (t # older)) @ recent) + lineLen ((t # older) ! 0))
        \<and> (recent = [] \<and> t # older \<noteq> [] \<longrightarrow> 1 \<le> (0::nat))"
      by auto
    then show ?thesis by blast
  next
    case False
    have len': "len + lineLen t = sumLen (t # recent)"
      using Cons.prems(1) by (simp add: sumLen_def)
    have inv': "sumLen (t # recent) \<le> m \<or> length (t # recent) \<le> 1"
      using False Cons.prems(1) by (auto simp: sumLen_def)
    from Cons.IH [OF len' inv'] obtain k where k: "k \<le> length older"
      "budget_loop m older (len + lineLen t) (t # recent) = rev (take k older) @ t # recent"
      "sumLen (rev (take k older) @ t # recent) \<le> m \<or> length (rev (take k older) @ t # recent) \<le> 1"
      "k < length older \<longrightarrow> m < sumLen (rev (take k older) @ t # recent) + lineLen (older ! k)"
      by blast
    have "Suc k \<le> length (t # older)
        \<and> budget_loop m (t # older) len recent = rev (take (Suc k) (t # older)) @ recent
        \<and> (sumLen (rev (take (Suc k) (t # older)) @ recent) \<le> m
             \<or> length (rev (take (Suc k) (t # older)) @ recent) \<le> 1)
        \<and> (Suc k < length (t # older)
             \<longrightarrow> m < sumLen (rev (take (Suc k) (t # older)) @ recent) + lineLen ((t # older) ! Suc k))
        \<and> (recent = [] \<and> t # older \<noteq> [] \<longrightarrow> 1 \<le> Suc k)"
      using k False by simp
    then show ?thesis by blast
  qed
qed

lemma length_js_join_le:
  "length (js_join (js [CHR 0x0A, CHR 0x0A]) (map render_turn ts)) \<le> sumLen ts"
proof (induction ts rule: induct_list012)
  case 1
  then show ?case by (simp add: sumLen_def)
next
  case (2 t)
  then show ?case by (simp add: sumLen_def render_turn_def lineLen_def js_def)
next
  case (3 t u us)
  then show ?case by (simp add: sumLen_def render_turn_def lineLen_def js_def)
qed


lemma recentTurns_spec:
  assumes "history \<noteq> []"
  shows "\<exists>omitted < length history.
           recentTurnsWithinCharBudget history m = (drop omitted history, omitted)
           \<and> (sumLen (drop omitted history) \<le> m \<or> omitted = length history - 1)
           \<and> (0 < omitted \<longrightarrow> m < sumLen (drop omitted history) + lineLen (history ! (omitted - 1)))"
proof -
  have "\<exists>k\<le>length (rev history). budget_loop m (rev history) 0 [] = rev (take k (rev history)) @ []
           \<and> (sumLen (rev (take k (rev history)) @ []) \<le> m
                \<or> length (rev (take k (rev history)) @ []) \<le> 1)
           \<and> (k < length (rev history)
                \<longrightarrow> m < sumLen (rev (take k (rev history)) @ []) + lineLen (rev history ! k))
           \<and> ([] = ([]::ConversationTurn list) \<and> rev history \<noteq> [] \<longrightarrow> 1 \<le> k)"
    by (rule budget_loop_spec) (simp_all add: sumLen_def)
  then obtain k where k: "k \<le> length history" "1 \<le> k"
      "budget_loop m (rev history) 0 [] = rev (take k (rev history))"
      "sumLen (rev (take k (rev history))) \<le> m \<or> length (rev (take k (rev history))) \<le> 1"
      "k < length history \<longrightarrow> m < sumLen (rev (take k (rev history))) + lineLen (rev history ! k)"
    using assms by auto
  define omitted where "omitted = length history - k"
  have recent: "rev (take k (rev history)) = drop omitted history"
    by (simp add: omitted_def rev_take)
  have lt: "omitted < length history"
    using k(1,2) assms by (simp add: omitted_def)
  have len: "length (drop omitted history) = k"
    using k(1) by (simp add: omitted_def)
  have budget: "sumLen (drop omitted history) \<le> m \<or> omitted = length history - 1"
    using k(4) k(1,2) unfolding recent by (auto simp: omitted_def)
  have maxi: "0 < omitted \<longrightarrow> m < sumLen (drop omitted history) + lineLen (history ! (omitted - 1))"
  proof
    assume pos: "0 < omitted"
    then have "k < length history" by (simp add: omitted_def)
    moreover have "rev history ! k = history ! (omitted - 1)"
      using \<open>k < length history\<close> by (simp add: rev_nth omitted_def)
    ultimately show "m < sumLen (drop omitted history) + lineLen (history ! (omitted - 1))"
      using k(5) unfolding recent by simp
  qed
  have "length history - length (drop omitted history) = omitted"
    using lt by simp
  then have eq: "recentTurnsWithinCharBudget history m = (drop omitted history, omitted)"
    unfolding recentTurnsWithinCharBudget_def Let_def k(3) recent using assms by simp
  show ?thesis
    apply (rule exI [of _ omitted])
    apply (intro conjI)
       apply (rule lt)
      apply (rule eq)
     apply (rule budget)
    apply (rule maxi)
    done
qed

lemma recentTurns_budget:
  assumes "history \<noteq> []"
  shows "\<exists>omitted. omitted < length history \<and>
    recentTurnsWithinCharBudget history CONVERSATION_RECENT_MAX_CHARS = (drop omitted history, omitted) \<and>
    (sumLen (drop omitted history) \<le> 12000 \<or> omitted = length history - 1) \<and>
    (0 < omitted \<longrightarrow> 12000 < sumLen (drop omitted history) + lineLen (history ! (omitted - 1)))"
  using recentTurns_spec [OF assms(1), of CONVERSATION_RECENT_MAX_CHARS]
  unfolding CONVERSATION_RECENT_MAX_CHARS_def by simp

lemma conversation_section_of_recent:
  assumes "history \<noteq> []"
    and "conversationHistory config = Some history"
    and "conversationContextPack config = None"
    and o: "recentTurnsWithinCharBudget history CONVERSATION_RECENT_MAX_CHARS = (drop omitted history, omitted)"
  shows "buildContextPack_conversation budgetText config userMessage =
                [js ''## Conversation so far'' @ truncNote budgetText omitted
                   @ js_join (js [CHR 0x0A, CHR 0x0A]) (map render_turn (drop omitted history)),
                 js ''## User message (latest reply in the conversation above)''
                   @ js [CHR 0x0A, CHR 0x0A] @ userMessage]"
    unfolding buildContextPack_conversation_def assms(2) assms(3) Let_def option.case o prod.case
    using assms(1) by simp

text \<open>
  C8 (as amended). With no pre-built summary and a non-empty history, the turns shown are
  a suffix of the history (the oldest turns are the ones dropped) and the most recent turn
  is always among them. Their combined estimated length (role + content + 12 per turn)
  is at most 12000 unless the suffix is the most recent turn alone, which is shown
  whatever its length. The suffix is the longest such one: the newest dropped turn would
  not have fitted. The rendered lines are never longer than the estimate, and the
  conversation section carries the "older messages omitted" note exactly when at least
  one turn was dropped.
\<close>

theorem conversation_window_within_budget:
  assumes "history \<noteq> []"
    and "conversationHistory config = Some history"
    and "conversationContextPack config = None"
  shows "\<exists>omitted < length history.
           recentTurnsWithinCharBudget history CONVERSATION_RECENT_MAX_CHARS
             = (drop omitted history, omitted)
           \<and> (sumLen (drop omitted history) \<le> 12000 \<or> omitted = length history - 1)
           \<and> (0 < omitted \<longrightarrow>
                 12000 < sumLen (drop omitted history) + lineLen (history ! (omitted - 1)))
           \<and> length (js_join (js [CHR 0x0A, CHR 0x0A]) (map render_turn (drop omitted history)))
                 \<le> sumLen (drop omitted history)
           \<and> buildContextPack_conversation budgetText config userMessage =
                [js ''## Conversation so far''
                   @ (if 0 < omitted
                      then js [CHR 0x0A]
                           @ js ''(older messages omitted; showing recent conversation within ''
                           @ budgetText @ js '' characters)'' @ js [CHR 0x0A, CHR 0x0A]
                      else js [CHR 0x0A, CHR 0x0A])
                   @ js_join (js [CHR 0x0A, CHR 0x0A]) (map render_turn (drop omitted history)),
                 js ''## User message (latest reply in the conversation above)''
                   @ js [CHR 0x0A, CHR 0x0A] @ userMessage]"
proof -
  from recentTurns_budget [OF assms(1)]
  obtain omitted where o1: "omitted < length history"
    and o2: "recentTurnsWithinCharBudget history CONVERSATION_RECENT_MAX_CHARS = (drop omitted history, omitted)"
    and o3: "sumLen (drop omitted history) \<le> 12000 \<or> omitted = length history - 1"
    and o4: "0 < omitted \<longrightarrow> 12000 < sumLen (drop omitted history) + lineLen (history ! (omitted - 1))"
    by (elim exE conjE)
  note sec = conversation_section_of_recent [OF assms o2, of budgetText userMessage]
  show ?thesis
    apply (rule exI [of _ omitted])
    apply (intro conjI)
         apply (rule o1)
        apply (rule o2)
       apply (rule o3)
      apply (rule o4)
     apply (rule length_js_join_le)
    unfolding sec truncNote_def
    apply (rule refl)
    done
qed

theorem conversation_window_witness:
  "(let t0 = \<lparr>role = User, content = replicate 7000 97\<rparr>;
        t1 = \<lparr>role = Assistant, content = replicate 100 98\<rparr>;
        t2 = \<lparr>role = User, content = replicate 7000 99\<rparr>
    in recentTurnsWithinCharBudget [t0, t1, t2] CONVERSATION_RECENT_MAX_CHARS = ([t1, t2], 1)
       \<and> sumLen [t1, t2] = 7137 \<and> lineLen t0 = 7016)"
proof -
  let ?t0 = "\<lparr>role = User, content = replicate 7000 (97::int)\<rparr>"
  let ?t1 = "\<lparr>role = Assistant, content = replicate 100 (98::int)\<rparr>"
  let ?t2 = "\<lparr>role = User, content = replicate 7000 (99::int)\<rparr>"
  let ?config = "\<lparr>conversationHistory = Some [?t0, ?t1, ?t2], conversationContextPack = None,
      projectId = None\<rparr>"
  have lens: "sumLen [?t1, ?t2] = 7137" "lineLen ?t0 = 7016" "sumLen [?t2] = 7016"
     "sumLen [?t0, ?t1, ?t2] = 14153"
    by (simp_all add: sumLen_def lineLen_def js_def)
  have "[?t0, ?t1, ?t2] \<noteq> []" by simp
  from conversation_window_within_budget [OF this, of ?config "[]" "[]"]
  obtain omitted where o: "omitted < 3"
    "recentTurnsWithinCharBudget [?t0, ?t1, ?t2] CONVERSATION_RECENT_MAX_CHARS
       = (drop omitted [?t0, ?t1, ?t2], omitted)"
    "sumLen (drop omitted [?t0, ?t1, ?t2]) \<le> 12000 \<or> omitted = 2"
    "0 < omitted \<longrightarrow> 12000 < sumLen (drop omitted [?t0, ?t1, ?t2])
         + lineLen ([?t0, ?t1, ?t2] ! (omitted - 1))"
    by auto
  from o(1) consider "omitted = 0" | "omitted = 1" | "omitted = 2" by linarith
  then have "omitted = 1"
  proof cases
    case 1 with o(3) lens show ?thesis by simp
  next
    case 2 then show ?thesis .
  next
    case 3 with o(4) lens show ?thesis by (simp add: sumLen_def lineLen_def js_def)
  qed
  with o(2) lens show ?thesis by (simp add: Let_def)
qed

text \<open>
  C8 as stated fails: a single turn longer than the budget is still shown, so the
  combined length of the selected turns exceeds 12000 (under the loop's estimate and in
  the rendered text alike).
\<close>

theorem conversation_window_counterexample:
  "(let t = \<lparr>role = User, content = replicate 12000 97\<rparr>
    in recentTurnsWithinCharBudget [t] CONVERSATION_RECENT_MAX_CHARS = ([t], 0)
       \<and> CONVERSATION_RECENT_MAX_CHARS < sumLen [t]
       \<and> CONVERSATION_RECENT_MAX_CHARS
            < length (js_join (js [CHR 0x0A, CHR 0x0A]) (map render_turn [t])))"
  by (simp add: recentTurnsWithinCharBudget_def CONVERSATION_RECENT_MAX_CHARS_def Let_def
      sumLen_def lineLen_def render_turn_def js_def)

section \<open>The fallback reply: proofs\<close>

lemma find_Some_split:
  "find P xs = Some c \<longleftrightarrow> (\<exists>pre post. xs = pre @ c # post \<and> P c \<and> (\<forall>x\<in>set pre. \<not> P x))"
proof (induction xs)
  case Nil
  then show ?case by simp
next
  case (Cons a xs)
  show ?case
  proof (cases "P a")
    case True
    have "(\<exists>pre post. a # xs = pre @ c # post \<and> P c \<and> (\<forall>x\<in>set pre. \<not> P x)) \<longleftrightarrow> a = c"
    proof
      assume "\<exists>pre post. a # xs = pre @ c # post \<and> P c \<and> (\<forall>x\<in>set pre. \<not> P x)"
      then obtain pre post where h: "a # xs = pre @ c # post" "\<forall>x\<in>set pre. \<not> P x" by blast
      show "a = c"
      proof (cases pre)
        case Nil with h show ?thesis by simp
      next
        case (Cons b bs) with h True show ?thesis by auto
      qed
    next
      assume "a = c"
      then have "a # xs = [] @ c # xs \<and> P c \<and> (\<forall>x\<in>set []. \<not> P x)" using True by simp
      then show "\<exists>pre post. a # xs = pre @ c # post \<and> P c \<and> (\<forall>x\<in>set pre. \<not> P x)" by blast
    qed
    with True show ?thesis by simp
  next
    case False
    have "(\<exists>pre post. a # xs = pre @ c # post \<and> P c \<and> (\<forall>x\<in>set pre. \<not> P x))
        \<longleftrightarrow> (\<exists>pre post. xs = pre @ c # post \<and> P c \<and> (\<forall>x\<in>set pre. \<not> P x))"
    proof
      assume "\<exists>pre post. a # xs = pre @ c # post \<and> P c \<and> (\<forall>x\<in>set pre. \<not> P x)"
      then obtain pre post where h: "a # xs = pre @ c # post" "P c" "\<forall>x\<in>set pre. \<not> P x" by blast
      show "\<exists>pre post. xs = pre @ c # post \<and> P c \<and> (\<forall>x\<in>set pre. \<not> P x)"
      proof (cases pre)
        case Nil with h False show ?thesis by simp
      next
        case (Cons b bs)
        with h have "xs = bs @ c # post \<and> P c \<and> (\<forall>x\<in>set bs. \<not> P x)" by simp
        then show ?thesis by blast
      qed
    next
      assume "\<exists>pre post. xs = pre @ c # post \<and> P c \<and> (\<forall>x\<in>set pre. \<not> P x)"
      then obtain pre post where h: "xs = pre @ c # post" "P c" "\<forall>x\<in>set pre. \<not> P x" by blast
      then have "a # xs = (a # pre) @ c # post \<and> P c \<and> (\<forall>x\<in>set (a # pre). \<not> P x)"
        using False by simp
      then show "\<exists>pre post. a # xs = pre @ c # post \<and> P c \<and> (\<forall>x\<in>set pre. \<not> P x)" by blast
    qed
    with False Cons.IH show ?thesis by simp
  qed
qed

lemma first_rule_Some_iff:
  "first_rule rules calls = Some r \<longleftrightarrow>
     (\<exists>before p f after pre c post.
        rules = before @ (p, f) # after \<and> (\<forall>q\<in>set before. \<forall>x\<in>set calls. \<not> fst q x)
        \<and> calls = pre @ c # post \<and> p c \<and> (\<forall>x\<in>set pre. \<not> p x) \<and> r = f c)"
  (is "?L rules \<longleftrightarrow> ?R rules")
proof (induction rules)
  case Nil
  then show ?case by simp
next
  case (Cons pf rs)
  obtain p0 f0 where pf: "pf = (p0, f0)" by (cases pf)
  show ?case
  proof (cases "find p0 calls")
    case None
    then have none: "\<forall>x\<in>set calls. \<not> p0 x" by (simp add: find_None_iff)
    have "?R (pf # rs) \<longleftrightarrow> ?R rs"
    proof
      assume "?R (pf # rs)"
      then obtain before p f after pre c post where h:
        "pf # rs = before @ (p, f) # after" "\<forall>q\<in>set before. \<forall>x\<in>set calls. \<not> fst q x"
        "calls = pre @ c # post" "p c" "\<forall>x\<in>set pre. \<not> p x" "r = f c" by blast
      show "?R rs"
      proof (cases before)
        case Nil
        with h(1) pf have "p = p0" by simp
        with h(3,4) none show ?thesis by simp
      next
        case (Cons b bs)
        with h have "rs = bs @ (p, f) # after \<and> (\<forall>q\<in>set bs. \<forall>x\<in>set calls. \<not> fst q x)
          \<and> calls = pre @ c # post \<and> p c \<and> (\<forall>x\<in>set pre. \<not> p x) \<and> r = f c" by simp
        then show ?thesis by blast
      qed
    next
      assume "?R rs"
      then obtain before p f after pre c post where h:
        "rs = before @ (p, f) # after" "\<forall>q\<in>set before. \<forall>x\<in>set calls. \<not> fst q x"
        "calls = pre @ c # post" "p c" "\<forall>x\<in>set pre. \<not> p x" "r = f c" by blast
      then have "pf # rs = (pf # before) @ (p, f) # after
          \<and> (\<forall>q\<in>set (pf # before). \<forall>x\<in>set calls. \<not> fst q x)
          \<and> calls = pre @ c # post \<and> p c \<and> (\<forall>x\<in>set pre. \<not> p x) \<and> r = f c"
        using none pf by simp
      then show "?R (pf # rs)" by blast
    qed
    with None pf Cons.IH show ?thesis by simp
  next
    case (Some c0)
    then obtain pre0 post0 where c0: "calls = pre0 @ c0 # post0" "p0 c0" "\<forall>x\<in>set pre0. \<not> p0 x"
      by (auto simp: find_Some_split)
    have "?R (pf # rs) \<longleftrightarrow> r = f0 c0"
    proof
      assume "?R (pf # rs)"
      then obtain before p f after pre c post where h:
        "pf # rs = before @ (p, f) # after" "\<forall>q\<in>set before. \<forall>x\<in>set calls. \<not> fst q x"
        "calls = pre @ c # post" "p c" "\<forall>x\<in>set pre. \<not> p x" "r = f c" by blast
      show "r = f0 c0"
      proof (cases before)
        case Nil
        with h(1) pf have eq: "p = p0" "f = f0" by simp_all
        have "find p0 calls = Some c" using h(3,4,5) eq find_Some_split [of p0 calls c] by blast
        with Some h(6) eq show ?thesis by simp
      next
        case (Cons b bs)
        with h(1) pf have "b = (p0, f0)" by simp
        with h(2) Cons c0 show ?thesis by auto
      qed
    next
      assume "r = f0 c0"
      then have "pf # rs = [] @ (p0, f0) # rs \<and> (\<forall>q\<in>set []. \<forall>x\<in>set calls. \<not> fst q x)
          \<and> calls = pre0 @ c0 # post0 \<and> p0 c0 \<and> (\<forall>x\<in>set pre0. \<not> p0 x) \<and> r = f0 c0"
        using c0 pf by simp
      then show "?R (pf # rs)" by blast
    qed
    with Some pf show ?thesis by auto
  qed
qed

lemma fallback_reply_rules: "fallback_reply toolCalls = first_rule fallback_rules toolCalls"
  by (simp add: fallback_reply_def fallback_rules_def split: option.splits)



text \<open>
  C9 (as amended). The reply of a returned turn is the model's text unless that text is
  empty or whitespace; then it is the fallback, a function of the Tool Call Record alone,
  and the model's text stays when the fallback finds nothing. The fallback follows a fixed
  priority order of kinds (placeholder-rejected creation, placeholder-rejected update,
  successful creation, move to To Do, body update, sync, column listing, repository
  listing, cross-repository move): it answers for the first kind of which the record holds
  an entry, with the earliest entry of that kind.
\<close>

theorem fallback_reply_priority_order:
  "runPmAgent_reply text toolCalls =
     (if js_trim text = []
      then (case fallback_reply toolCalls of Some r \<Rightarrow> r | None \<Rightarrow> text) else text)
   \<and> (fallback_reply toolCalls = Some r \<longleftrightarrow>
        (\<exists>before p f after pre c post.
           fallback_rules = before @ (p, f) # after
           \<and> (\<forall>q\<in>set before. \<forall>x\<in>set toolCalls. \<not> fst q x)
           \<and> toolCalls = pre @ c # post \<and> p c \<and> (\<forall>x\<in>set pre. \<not> p x) \<and> r = f c))"
  unfolding fallback_reply_rules first_rule_Some_iff
  by (simp add: runPmAgent_reply_def fallback_reply_rules)

theorem fallback_reply_priority_order_witness:
  "fallback_reply
     [Call_read_file,
      Call_kanban_move_ticket_to_todo (js ''0007'') (MoveOk (js ''0007'') (js ''col-unassigned'') (js ''col-todo'')),
      Call_sync_tickets (SyncOk None),
      Call_kanban_move_ticket_to_todo (js ''0008'') (MoveOk (js ''0008'') (js ''col-unassigned'') (js ''col-todo''))]
   = Some (reply_moveCall
       (Call_kanban_move_ticket_to_todo (js ''0007'') (MoveOk (js ''0007'') (js ''col-unassigned'') (js ''col-todo''))))"
proof -
  let ?m7 = "Call_kanban_move_ticket_to_todo (js ''0007'') (MoveOk (js ''0007'') (js ''col-unassigned'') (js ''col-todo''))"
  let ?m8 = "Call_kanban_move_ticket_to_todo (js ''0008'') (MoveOk (js ''0008'') (js ''col-unassigned'') (js ''col-todo''))"
  let ?calls = "[Call_read_file, ?m7, Call_sync_tickets (SyncOk None), ?m8]"
  let ?before = "[(is_createTicketRejected, reply_createTicketRejected),
      (is_updateTicketRejected, reply_updateTicketRejected),
      (is_createTicketCall, reply_createTicketCall)]"
  let ?after = "[(is_updateBodyCall, reply_updateBodyCall),
      (is_syncTicketsCall, reply_syncTicketsCall),
      (is_listTicketsCall, reply_listTicketsCall),
      (is_listReposCall, reply_listReposCall),
      (is_moveToOtherRepoCall, reply_moveToOtherRepoCall)]"
  have "fallback_rules = ?before @ (is_moveCall, reply_moveCall) # ?after
      \<and> (\<forall>q\<in>set ?before. \<forall>x\<in>set ?calls. \<not> fst q x)
      \<and> ?calls = [Call_read_file] @ ?m7 # [Call_sync_tickets (SyncOk None), ?m8]
      \<and> is_moveCall ?m7 \<and> (\<forall>x\<in>set [Call_read_file]. \<not> is_moveCall x)
      \<and> reply_moveCall ?m7 = reply_moveCall ?m7"
    by (simp add: fallback_rules_def)
  then have "\<exists>before p f after pre c post.
           fallback_rules = before @ (p, f) # after
           \<and> (\<forall>q\<in>set before. \<forall>x\<in>set ?calls. \<not> fst q x)
           \<and> ?calls = pre @ c # post \<and> p c \<and> (\<forall>x\<in>set pre. \<not> p x) \<and> reply_moveCall ?m7 = f c"
    by blast
  then show ?thesis
    using fallback_reply_priority_order [of "[]" ?calls "reply_moveCall ?m7"] by blast
qed

text \<open>
  C9 as stated fails: the fallback does not describe the most recent mutation. After a
  creation followed by a move to To Do, it describes the creation (and says the ticket is
  under Unassigned).
\<close>

theorem fallback_reply_counterexample:
  "(let created = Call_create_ticket (js ''Fix login'') (js ''body'')
        (CreateOk (js ''0001'') (js ''HAL-0001'') 1 (js ''acme/hal'') (js ''0001-fix-login.md'')
           (js ''supabase:tickets/HAL-0001'') None False (Some [js ''Constraints section missing or empty''])
           False False None);
        moved = Call_kanban_move_ticket_to_todo (js ''0001'')
          (MoveOk (js ''0001'') (js ''col-unassigned'') (js ''col-todo''))
    in runPmAgent_reply [] [created, moved] = reply_createTicketCall created
       \<and> runPmAgent_reply [] [moved] = reply_moveCall moved
       \<and> runPmAgent_reply [] [created, moved] \<noteq> runPmAgent_reply [] [moved])"
  by (simp add: runPmAgent_reply_def fallback_reply_def js_trim_def Let_def js_def)

section \<open>The path sandbox: proofs\<close>

text \<open>
  C6 at the failing input. The root is \<open>/repo\<close> and the candidate is \<open>..foo\<close>, a name
  inside the root: it resolves to \<open>/repo/..foo\<close>, whose relative form from the root is
  \<open>..foo\<close>, one ordinary segment and no parent-directory segment. \<open>sandboxPath\<close> tests
  \<open>relative.startsWith('..')\<close> and returns \<open>null\<close>.
\<close>

theorem sandboxPath_rejects_name_inside_root:
  "path_resolve (js ''/home/u'') [js ''/repo'', js ''..foo''] = js ''/repo/..foo''
   \<and> path_relative (js ''/home/u'') (js ''/repo'') (js ''/repo/..foo'') = js ''..foo''
   \<and> segments (js ''/repo/..foo'') = segments (js ''/repo'') @ [js ''..foo'']
   \<and> sandboxPath (js ''/home/u'') (js ''/repo'') (js ''..foo'') = None"
  by (simp add: sandboxPath_def path_resolve_def path_relative_def normalizeString_def
      norm_step_def segments_def startsWith_def path_isAbsolute_def js_def Let_def)

section \<open>Redaction: proofs\<close>






















section \<open>The readiness evaluator: proofs\<close>

lemma test_anywhere_False: "(\<And>s. \<not> p s) \<Longrightarrow> \<not> test_anywhere p s"
  by (induction s) auto





section \<open>Placeholder rejection: proofs\<close>

lemma test_anywhere_append: "test_anywhere p t \<Longrightarrow> test_anywhere p (pre @ t)"
  by (induction pre) auto

lemma match_all_nonempty:
  "m [] = None \<Longrightarrow> test_anywhere (\<lambda>t. \<exists>n. m t = Some n \<and> 0 < n) s \<Longrightarrow> match_all m s \<noteq> []"
proof (induction m s rule: match_all.induct)
  case (1 m)
  then show ?case by simp
next
  case (2 m c cs)
  then show ?case by (auto split: option.splits)
qed

lemma placeholder_match_token:
  assumes "mid \<noteq> []" and "list_all is_placeholder_char mid"
  shows "placeholder_match (60 # mid @ 62 # post) = Some (length mid + 2)"
proof -
  have not62: "\<not> is_placeholder_char 62"
    by (simp add: is_placeholder_char_def is_alnum_def isWhiteSpace_def)
  have all: "x \<in> set mid \<Longrightarrow> is_placeholder_char x" for x
    using assms(2) by (simp add: list_all_iff)
  have "takeWhile is_placeholder_char (mid @ 62 # post) = mid @ takeWhile is_placeholder_char (62 # post)"
    by (rule takeWhile_append2) (rule all)
  then have tw: "takeWhile is_placeholder_char (mid @ 62 # post) = mid"
    using not62 by simp
  show ?thesis
    using assms(1) by (simp add: placeholder_match_def startsWith_def js_def tw Let_def)
qed

lemma dropWhile_keeps:
  "\<not> W c \<Longrightarrow> \<exists>pre'. dropWhile W (pre @ c # r) = pre' @ c # r"
proof (induction pre)
  case Nil
  then show ?case by simp
next
  case (Cons a pre)
  then show ?case by (cases "W a") auto
qed

lemma js_trim_keeps_token:
  "\<exists>pre' post'. js_trim (pre @ 60 # mid @ 62 # post) = pre' @ 60 # mid @ 62 # post'"
proof -
  have w60: "\<not> isWhiteSpace 60" and w62: "\<not> isWhiteSpace 62"
    by (simp_all add: isWhiteSpace_def)
  from dropWhile_keeps [of isWhiteSpace 60 pre "mid @ 62 # post", OF w60] obtain pre' where
    a: "dropWhile isWhiteSpace (pre @ 60 # mid @ 62 # post) = pre' @ 60 # mid @ 62 # post"
    by blast
  have "rev (pre' @ 60 # mid @ 62 # post) = rev post @ 62 # (rev mid @ 60 # rev pre')"
    by simp
  moreover from dropWhile_keeps [of isWhiteSpace 62 "rev post" "rev mid @ 60 # rev pre'", OF w62]
  obtain q where
    "dropWhile isWhiteSpace (rev post @ 62 # (rev mid @ 60 # rev pre')) = q @ 62 # (rev mid @ 60 # rev pre')"
    by blast
  ultimately have "js_trim (pre @ 60 # mid @ 62 # post) = rev (q @ 62 # (rev mid @ 60 # rev pre'))"
    unfolding js_trim_def a by simp
  then have "js_trim (pre @ 60 # mid @ 62 # post) = pre' @ 60 # mid @ 62 # rev q" by simp
  then show ?thesis by blast
qed

lemma token_detected:
  assumes "mid \<noteq> []" and "list_all is_placeholder_char mid"
  shows "placeholders_in (js_trim (pre @ 60 # mid @ 62 # post)) \<noteq> []"
proof -
  from js_trim_keeps_token obtain pre' post' where
    t: "js_trim (pre @ 60 # mid @ 62 # post) = pre' @ 60 # mid @ 62 # post'" by blast
  have "test_anywhere (\<lambda>t. \<exists>n. placeholder_match t = Some n \<and> 0 < n) (60 # mid @ 62 # post')"
    using placeholder_match_token [OF assms, of post'] by simp
  then have "test_anywhere (\<lambda>t. \<exists>n. placeholder_match t = Some n \<and> 0 < n) (pre' @ 60 # mid @ 62 # post')"
    by (rule test_anywhere_append)
  moreover have "placeholder_match [] = None"
    by (simp add: placeholder_match_def startsWith_def js_def)
  ultimately show ?thesis unfolding t placeholders_in_def using match_all_nonempty by blast
qed

lemma unique_first_nonempty: "xs \<noteq> [] \<Longrightarrow> unique_first xs \<noteq> []"
  by (simp add: unique_first_def)

text \<open>
  C4. A body that contains an angle-bracket placeholder token is rejected by
  \<open>create_ticket\<close> and by \<open>update_ticket_body\<close> with \<open>success: false\<close> and the list of the
  detected placeholders, which is not empty; the store after the call is the store before
  it (no query was sent), and the only effect is the entry in the Tool Call Record.
\<close>

theorem placeholder_rejected_before_store:
  assumes "body_md = pre @ 60 # mid @ 62 # post"
    and "mid \<noteq> []" and "list_all is_placeholder_char mid"
  shows "\<exists>ps. ps \<noteq> [] \<and> ps = unique_first (placeholders_in (js_trim body_md))
           \<and> tool_create_ticket E config title body_md s =
               (CreateErr (placeholder_rejection (js ''creation'') [] (js ''creating'') ps) (Some ps),
                s\<lparr>ts_toolCalls := ts_toolCalls s
                     @ [Call_create_ticket title body_md
                          (CreateErr (placeholder_rejection (js ''creation'') [] (js ''creating'') ps)
                             (Some ps))]\<rparr>)
           \<and> tool_update_ticket_body config ticket_id body_md s =
               (UpdateErr (placeholder_rejection (js ''update'') [] (js ''updating'') ps) (Some ps),
                s\<lparr>ts_toolCalls := ts_toolCalls s
                     @ [Call_update_ticket_body ticket_id body_md
                          (UpdateErr (placeholder_rejection (js ''update'') [] (js ''updating'') ps)
                             (Some ps))]\<rparr>)"
proof -
  have ne: "placeholders_in (js_trim body_md) \<noteq> []"
    unfolding assms(1) using assms(2,3) by (rule token_detected)
  then have "unique_first (placeholders_in (js_trim body_md)) \<noteq> []"
    by (rule unique_first_nonempty)
  moreover have "tool_create_ticket E config title body_md s =
               (CreateErr (placeholder_rejection (js ''creation'') [] (js ''creating'')
                  (unique_first (placeholders_in (js_trim body_md))))
                  (Some (unique_first (placeholders_in (js_trim body_md)))),
                s\<lparr>ts_toolCalls := ts_toolCalls s
                     @ [Call_create_ticket title body_md
                          (CreateErr (placeholder_rejection (js ''creation'') [] (js ''creating'')
                             (unique_first (placeholders_in (js_trim body_md))))
                             (Some (unique_first (placeholders_in (js_trim body_md)))))]\<rparr>)"
    using ne by (simp add: tool_create_ticket_def create_ticket_execute_def Let_def)
  moreover have "tool_update_ticket_body config ticket_id body_md s =
               (UpdateErr (placeholder_rejection (js ''update'') [] (js ''updating'')
                  (unique_first (placeholders_in (js_trim body_md))))
                  (Some (unique_first (placeholders_in (js_trim body_md)))),
                s\<lparr>ts_toolCalls := ts_toolCalls s
                     @ [Call_update_ticket_body ticket_id body_md
                          (UpdateErr (placeholder_rejection (js ''update'') [] (js ''updating'')
                             (unique_first (placeholders_in (js_trim body_md))))
                             (Some (unique_first (placeholders_in (js_trim body_md)))))]\<rparr>)"
    using ne by (simp add: tool_update_ticket_body_def update_ticket_body_execute_def Let_def)
  ultimately show ?thesis by blast
qed


theorem placeholder_rejected_witness:
  "tool_create_ticket env0 config_hal (js ''Fix login'') (js ''  Goal: <AC 1> for <task-id>, <AC 1>  '')
     \<lparr>ts_toolCalls = [], ts_db = scripted []\<rparr>
   = (CreateErr (placeholder_rejection (js ''creation'') [] (js ''creating'')
                   [js ''<AC 1>'', js ''<task-id>''])
        (Some [js ''<AC 1>'', js ''<task-id>'']),
      \<lparr>ts_toolCalls =
         [Call_create_ticket (js ''Fix login'') (js ''  Goal: <AC 1> for <task-id>, <AC 1>  '')
            (CreateErr (placeholder_rejection (js ''creation'') [] (js ''creating'')
                          [js ''<AC 1>'', js ''<task-id>''])
               (Some [js ''<AC 1>'', js ''<task-id>'']))],
       ts_db = scripted []\<rparr>)"
proof -
  have body: "js ''  Goal: <AC 1> for <task-id>, <AC 1>  ''
      = js ''  Goal: '' @ 60 # js ''AC 1'' @ 62 # js '' for <task-id>, <AC 1>  ''"
    by (simp add: js_def)
  have mid: "js ''AC 1'' \<noteq> []" "list_all is_placeholder_char (js ''AC 1'')"
    by code_simp+
  have ps: "unique_first (placeholders_in (js_trim (js ''  Goal: <AC 1> for <task-id>, <AC 1>  '')))
      = [js ''<AC 1>'', js ''<task-id>'']"
    by code_simp
  from placeholder_rejected_before_store [OF body mid, of env0 config_hal "js ''Fix login''"
      "\<lparr>ts_toolCalls = [], ts_db = scripted []\<rparr>" "js ''0001''"]
  show ?thesis unfolding ps by auto
qed

section \<open>Ticket references: proofs\<close>














lemma digits_value_zeros: "set ds \<subseteq> {48} \<Longrightarrow> digits_value ds = 0"
proof -
  have "set ds \<subseteq> {48} \<Longrightarrow> foldl (\<lambda>a c. 10 * a + (c - 48)) 0 ds = 0"
    by (induction ds rule: rev_induct) auto
  then show "set ds \<subseteq> {48} \<Longrightarrow> digits_value ds = 0" by (simp add: digits_value_def)
qed








end
